theory Spec2Isabelle
  imports Main "HOL-Library.Word" "HOL-Library.Signed_Division" "HOL-Library.AList"
begin

section \<open>JavaScript values the middleware handles\<close>

text \<open>
  A JavaScript string is a sequence of 16-bit code units: \<open>length\<close> and \<open>slice\<close> count
  code units, and the truncation marker of \<open>safeBody\<close> starts with the single unit U+2026.
  \<open>js\<close> embeds an ASCII literal of the source.
\<close>

type_synonym jsstring = "16 word list"

definition js :: "string \<Rightarrow> jsstring" where
  "js s = map of_char s"

text \<open>
  A header value is \<open>string | string[] | undefined\<close>; \<open>undefined\<close> is \<open>None\<close>
  throughout. A header object is the list of its own entries, in the order
  \<open>Object.entries\<close> returns them; an object holds each key once.
\<close>

datatype hval = HStr jsstring | HArr "jsstring list"

type_synonym header_obj = "(jsstring \<times> hval option) list"

text \<open>\<open>obj[k]\<close>, read: a key that is not there gives \<open>undefined\<close>.\<close>

definition get_prop :: "header_obj \<Rightarrow> jsstring \<Rightarrow> hval option" where
  "get_prop obj k = (case map_of obj k of None \<Rightarrow> None | Some v \<Rightarrow> v)"

text \<open>
  \<open>obj[k] = v\<close>, written, on an object created by the literal \<open>{}\<close>. Such an object
  inherits from \<open>Object.prototype\<close>, whose only accessor property is \<open>__proto__\<close>: an
  assignment to that key runs the inherited setter (ECMA-262, set
  Object.prototype.__proto__), which creates no own property, whatever the value. Every
  other key is created, or overwritten where it stands.
\<close>

definition assign_prop :: "header_obj \<Rightarrow> jsstring \<Rightarrow> hval option \<Rightarrow> header_obj" where
  "assign_prop obj k v = (if k = js ''__proto__'' then obj else AList.update k v obj)"

text \<open>Truthiness, as \<open>||\<close>, \<open>&&\<close> and \<open>!\<close> test it: \<open>undefined\<close> and the empty string are falsy,
  every array is truthy.\<close>

definition truthy_string :: "jsstring option \<Rightarrow> bool" where
  "truthy_string v = (case v of None \<Rightarrow> False | Some s \<Rightarrow> s \<noteq> [])"

fun truthy :: "hval option \<Rightarrow> bool" where
  "truthy None = False"
| "truthy (Some (HStr s)) = (s \<noteq> [])"
| "truthy (Some (HArr xs)) = True"

text \<open>\<open>a || b\<close> on optional strings.\<close>

definition js_or :: "jsstring option \<Rightarrow> jsstring option \<Rightarrow> jsstring option" where
  "js_or a b = (if truthy_string a then a else b)"

text \<open>What a call can throw: the \<open>TypeError\<close> of calling a method a value does not have, or
  a value thrown by code passed in from outside (the user-id callback, a \<open>toJSON\<close>).\<close>

datatype exn = TypeError | Thrown jsstring

text \<open>\<open>s.split(sep)\<close> for a separator of one code unit, and \<open>arr[0]\<close>.\<close>

fun split :: "16 word \<Rightarrow> jsstring \<Rightarrow> jsstring list" where
  "split c [] = [[]]"
| "split c (x # xs) =
     (if x = c then [] # split c xs
      else (case split c xs of [] \<Rightarrow> [[x]] | y # ys \<Rightarrow> (x # y) # ys))"

definition index0 :: "'a list \<Rightarrow> 'a option" where
  "index0 xs = (case xs of [] \<Rightarrow> None | x # _ \<Rightarrow> Some x)"

text \<open>\<open>s.slice(0, n)\<close> for an integral \<open>n\<close>: a negative end counts from the end of the string.\<close>

definition slice0 :: "jsstring \<Rightarrow> int \<Rightarrow> jsstring" where
  "slice0 s n =
     (let len = int (length s);
          to = (if n < 0 then max (len + n) 0 else min n len)
      in take (nat to) s)"

section \<open>Requests, responses, failures\<close>

text \<open>\<open>req.body\<close> is a string (\<open>typeof req.body === "string"\<close>) or anything else; \<open>req.query\<close>
  is carried into the entry as it is.\<close>

datatype 'b body = StringBody jsstring | OtherBody 'b

record ('b, 'q) request =
  headers :: header_obj
  path :: jsstring
  req_method :: jsstring  \<comment> \<open>\<open>req.method\<close>\<close>
  originalUrl :: "jsstring option"
  url :: jsstring
  protocol :: "jsstring option"
  ip :: "jsstring option"
  query :: "'q option"
  body :: "'b body"
  requestId :: "hval option"  \<comment> \<open>the property \<open>(req as any).requestId\<close>\<close>

record response =
  statusCode :: int

text \<open>The failure handed to the error middleware, as far as the middleware reads it:
  \<open>err?.message\<close> and \<open>err?.stack\<close>, each a string or absent.\<close>

record failure =
  err_message :: "jsstring option"
  err_stack :: "jsstring option"

text \<open>
  Library functions of the platform that the class calls and the repository does not
  define: \<open>String.prototype.toLowerCase\<close>, \<open>String.prototype.toUpperCase\<close> and
  \<open>JSON.stringify\<close> on a body, which returns a text, returns \<open>undefined\<close> or throws.
\<close>

record 'b platform =
  toLowerCase :: "jsstring \<Rightarrow> jsstring"
  toUpperCase :: "jsstring \<Rightarrow> jsstring"
  JSON_stringify :: "'b \<Rightarrow> exn + jsstring option"

section \<open>Options and the constructor\<close>

text \<open>
  A \<open>RegExp\<close> object is its pattern and its mutable property \<open>lastIndex\<close>. The pattern is
  kept here, the property in the state below. The matcher of the regular-expression
  engine is a parameter: \<open>rx_search rx s i\<close> is the end index of the match it finds in
  \<open>s\<close> when started at index \<open>i\<close> (for a sticky pattern, of the match at \<open>i\<close> itself), or
  \<open>None\<close>. \<open>rx_global\<close> and \<open>rx_sticky\<close> are the flags \<open>g\<close> and \<open>y\<close>.
\<close>

record pattern =
  rx_search :: "jsstring \<Rightarrow> nat \<Rightarrow> nat option"
  rx_global :: bool
  rx_sticky :: bool

text \<open>
  \<open>rx.test(s)\<close> with the object's \<open>lastIndex\<close> before the call: the result and the
  \<open>lastIndex\<close> after it (ECMA-262, RegExpBuiltinExec). With the flag \<open>g\<close> or \<open>y\<close> the
  search starts at \<open>lastIndex\<close>, which becomes the end of the match, or 0 when there is
  none; without them it starts at 0 and \<open>lastIndex\<close> is left alone.
\<close>

definition rx_test :: "pattern \<Rightarrow> nat \<Rightarrow> jsstring \<Rightarrow> bool \<times> nat" where
  "rx_test rx li s =
     (if rx_global rx \<or> rx_sticky rx
      then (if li > length s then (False, 0)
            else (case rx_search rx s li of None \<Rightarrow> (False, 0) | Some e \<Rightarrow> (True, e)))
      else (case rx_search rx s 0 of None \<Rightarrow> (False, li) | Some e \<Rightarrow> (True, li)))"

text \<open>\<open>GcpLoggerOptions\<close>: every field may be left out.\<close>

record ('b, 'q) GcpLoggerOptions =
  opt_redactHeaders :: "jsstring list option"
  opt_captureBody :: "bool option"
  opt_maxBodyLength :: "int option"
  opt_getUserId :: "(('b, 'q) request \<Rightarrow> exn + jsstring option) option"
  opt_skipPaths :: "pattern list option"
  opt_projectIdEnvVar :: "jsstring option"

text \<open>\<open>Required<GcpLoggerOptions>\<close>, the field \<open>opts\<close> of the class.\<close>

record ('b, 'q) opts =
  redactHeaders :: "jsstring list"
  captureBody :: bool
  maxBodyLength :: int
  getUserId :: "('b, 'q) request \<Rightarrow> exn + jsstring option"
  skipPaths :: "pattern list"
  projectIdEnvVar :: jsstring

text \<open>\<open>a ?? b\<close>.\<close>

definition nullish :: "'a option \<Rightarrow> 'a \<Rightarrow> 'a" where
  "nullish a b = (case a of None \<Rightarrow> b | Some x \<Rightarrow> x)"

text \<open>
  A pattern \<open>/^text$/\<close> of literal characters, anchored at both ends: it matches only the
  whole string \<open>text\<close>, and only when the search starts at index 0 (\<open>^\<close> matches nowhere
  else without the flag \<open>m\<close>). The three default patterns \<open>/^\/healthz$/\<close>,
  \<open>/^\/metrics$/\<close> and \<open>/^\/favicon\.ico$/\<close> are of this form and have no flag.
\<close>

definition anchored_literal :: "jsstring \<Rightarrow> bool \<Rightarrow> pattern" where
  "anchored_literal text g =
     \<lparr> rx_search = (\<lambda>s i. if i = 0 \<and> s = text then Some (length s) else None),
       rx_global = g, rx_sticky = False \<rparr>"

definition default_skipPaths :: "pattern list" where
  "default_skipPaths =
     [anchored_literal (js ''/healthz'') False, anchored_literal (js ''/metrics'') False,
      anchored_literal (js ''/favicon.ico'') False]"

definition GcpLogger :: "'b platform \<Rightarrow> ('b, 'q) GcpLoggerOptions \<Rightarrow> ('b, 'q) opts" where
  "GcpLogger P options =
     \<lparr> redactHeaders =
         map (toLowerCase P)
           (nullish (opt_redactHeaders options) [js ''authorization'', js ''cookie'']),
       captureBody = nullish (opt_captureBody options) False,
       maxBodyLength = nullish (opt_maxBodyLength options) 10000,
       getUserId = nullish (opt_getUserId options) (\<lambda>_. Inr None),
       skipPaths = nullish (opt_skipPaths options) default_skipPaths,
       projectIdEnvVar = nullish (opt_projectIdEnvVar options) (js ''GCP_PROJECT'') \<rparr>"

section \<open>The private helpers\<close>

definition REDACTED :: "hval option" where
  "REDACTED = Some (HStr (js ''[REDACTED]''))"

text \<open>The loop of \<open>safeHeaders\<close> over \<open>Object.entries(req.headers)\<close>, from the empty object.\<close>

definition safeHeaders_step ::
  "'b platform \<Rightarrow> ('b, 'q) opts \<Rightarrow> jsstring \<times> hval option \<Rightarrow> header_obj \<Rightarrow> header_obj" where
  "safeHeaders_step P opts kv acc =
     assign_prop acc (fst kv)
       (if toLowerCase P (fst kv) \<in> set (redactHeaders opts) then REDACTED else snd kv)"

definition safeHeaders :: "'b platform \<Rightarrow> ('b, 'q) opts \<Rightarrow> ('b, 'q) request \<Rightarrow> header_obj" where
  "safeHeaders P opts req = fold (safeHeaders_step P opts) (headers req) []"

definition truncated_marker :: jsstring where
  "truncated_marker = 0x2026 # js ''[truncated]''"

text \<open>\<open>typeof req.body === "string" ? req.body : JSON.stringify(req.body)\<close>, then the rest
  of the \<open>try\<close> block of \<open>safeBody\<close>, then \<open>safeBody\<close> with its \<open>catch\<close>.\<close>

definition body_raw :: "'b platform \<Rightarrow> ('b, 'q) request \<Rightarrow> exn + jsstring option" where
  "body_raw P req = (case body req of StringBody s \<Rightarrow> Inr (Some s) | OtherBody b \<Rightarrow> JSON_stringify P b)"

definition safeBody_try :: "'b platform \<Rightarrow> ('b, 'q) opts \<Rightarrow> ('b, 'q) request \<Rightarrow> exn + jsstring option" where
  "safeBody_try P opts req =
     (case body_raw P req of
        Inl e \<Rightarrow> Inl e
      | Inr raw \<Rightarrow>
          if \<not> truthy_string raw then Inr None
          else (case raw of
                  None \<Rightarrow> Inr None
                | Some t \<Rightarrow>
                    Inr (Some (if int (length t) > maxBodyLength opts
                               then slice0 t (maxBodyLength opts) @ truncated_marker
                               else t))))"

definition safeBody :: "'b platform \<Rightarrow> ('b, 'q) opts \<Rightarrow> ('b, 'q) request \<Rightarrow> exn + jsstring option" where
  "safeBody P opts req =
     (if \<not> captureBody opts then Inr None
      else (case safeBody_try P opts req of
              Inl e \<Rightarrow> Inr (Some (js ''[unserializable body]''))
            | Inr r \<Rightarrow> Inr r))"

text \<open>
  \<open>buildTrace\<close>. \<open>process.env\<close> maps a name to a string or \<open>undefined\<close>. The header is read
  under the cast \<open>as string\<close>, which checks nothing: an array is truthy, survives
  \<open>|| ""\<close> and has no \<open>split\<close> method, so the call throws a \<open>TypeError\<close>.
\<close>

definition buildTrace ::
  "('b, 'q) opts \<Rightarrow> (jsstring \<Rightarrow> jsstring option) \<Rightarrow> ('b, 'q) request \<Rightarrow> exn + jsstring option" where
  "buildTrace opts penv req =
     (let projectId =
            js_or (js_or (penv (js ''GOOGLE_CLOUD_PROJECT'')) (penv (js ''GCLOUD_PROJECT'')))
              (penv (projectIdEnvVar opts))
      in case (case get_prop (headers req) (js ''x-cloud-trace-context'') of
                 Some (HArr xs) \<Rightarrow> Inl TypeError
               | Some (HStr s) \<Rightarrow> Inr (if s \<noteq> [] then s else js '''')
               | None \<Rightarrow> Inr (js '''')) of
           Inl e \<Rightarrow> Inl e
         | Inr traceHeader \<Rightarrow>
             (let traceId = index0 (split (of_char CHR ''/'') traceHeader)
              in if truthy_string projectId \<and> truthy_string traceId
                 then (case (projectId, traceId) of
                         (Some p, Some t) \<Rightarrow>
                           Inr (Some (js ''projects/'' @ p @ js ''/traces/'' @ t))
                       | _ \<Rightarrow> Inr None)
                 else Inr None))"

datatype severity = INFO | WARNING | ERROR

definition statusToSeverity :: "int \<Rightarrow> severity" where
  "statusToSeverity status =
     (if status \<ge> 500 then ERROR else if status \<ge> 400 then WARNING else INFO)"

section \<open>Log entries\<close>

text \<open>
  The object literal \<open>logEntry\<close> of either middleware, as \<open>JSON.stringify\<close> writes it: a
  key whose value is \<open>undefined\<close> is not written, and neither is a key the literal does
  not have, so \<open>None\<close> is a field absent from the emitted line. \<open>userId\<close> alone is
  written as \<open>userId ?? null\<close>: its \<open>None\<close> is the JSON \<open>null\<close>. \<open>latency\<close> is the text
  \<open>`${ms / 1000}s`\<close> of a number of milliseconds; the number is kept, not its rendering.
\<close>

datatype latency = Seconds_of_ms int

record httpRequest =
  http_requestMethod :: jsstring
  http_requestUrl :: jsstring
  http_status :: int
  http_userAgent :: "hval option"
  http_referer :: "hval option"
  http_protocol :: "jsstring option"
  http_remoteIp :: "jsstring option"
  http_latency :: "latency option"

record 'q logEntry =
  log_severity :: severity
  log_message :: jsstring
  log_httpRequest :: httpRequest
  log_trace :: "jsstring option"
  log_requestId :: hval
  log_type :: jsstring
  log_path :: jsstring
  log_query :: "'q option"
  log_durationMs :: "int option"
  log_userId :: "jsstring option"
  log_host :: "hval option"
  log_headers :: header_obj
  log_body :: "jsstring option"
  log_stack :: "jsstring option"

section \<open>The state the two middlewares run in\<close>

text \<open>
  \<open>process.env\<close>; the clock \<open>process.hrtime.bigint()\<close> as the sequence of its readings
  and the number of readings taken; \<open>crypto.randomUUID()\<close> likewise; the request and the
  response; the listeners registered with \<open>res.on("finish", ...)\<close>, each the variables
  its closure captured; the calls of \<open>next\<close> (\<open>None\<close> for \<open>next()\<close>, \<open>Some err\<close> for
  \<open>next(err)\<close>); the lines written with \<open>console.log\<close> and with \<open>console.error\<close>;
  the property \<open>lastIndex\<close> of each \<open>RegExp\<close> of \<open>skipPaths\<close>, by its position in the
  array (0 when the object is created).
\<close>

record closure =
  cap_started :: int
  cap_requestId :: hval
  cap_trace :: "jsstring option"

record ('b, 'q) state =
  env :: "jsstring \<Rightarrow> jsstring option"
  hrtime :: "nat \<Rightarrow> int"
  hr_reads :: nat
  randomUUID :: "nat \<Rightarrow> jsstring"
  uuid_calls :: nat
  req :: "('b, 'q) request"
  res :: response
  finish_listeners :: "closure list"
  next_calls :: "failure option list"
  stdout :: "'q logEntry list"
  stderr :: "'q logEntry list"
  lastIndex :: "nat \<Rightarrow> nat"

definition call_next :: "failure option \<Rightarrow> ('b, 'q) state \<Rightarrow> ('b, 'q) state" where
  "call_next arg s = s\<lparr>next_calls := next_calls s @ [arg]\<rparr>"

definition fresh_uuid :: "('b, 'q) state \<Rightarrow> hval \<times> ('b, 'q) state" where
  "fresh_uuid s = (HStr (randomUUID s (uuid_calls s)), s\<lparr>uuid_calls := Suc (uuid_calls s)\<rparr>)"

text \<open>\<open>v || crypto.randomUUID()\<close>: the generator is called only when \<open>v\<close> is falsy.\<close>

definition or_uuid :: "hval option \<Rightarrow> ('b, 'q) state \<Rightarrow> hval \<times> ('b, 'q) state" where
  "or_uuid v s =
     (case v of
        None \<Rightarrow> fresh_uuid s
      | Some x \<Rightarrow> if truthy v then (x, s) else fresh_uuid s)"

text \<open>\<open>req.originalUrl || req.url\<close>.\<close>

definition requestUrl_of :: "('b, 'q) request \<Rightarrow> jsstring" where
  "requestUrl_of r = (if truthy_string (originalUrl r) then nullish (originalUrl r) (url r) else url r)"

section \<open>The skip decision\<close>

text \<open>
  \<open>this.opts.skipPaths.some((rx) => rx.test(path))\<close>: the patterns are tested in order
  until one succeeds; every test made updates the \<open>lastIndex\<close> of its object.
\<close>

fun some_test :: "pattern list \<Rightarrow> nat \<Rightarrow> (nat \<Rightarrow> nat) \<Rightarrow> jsstring \<Rightarrow> bool \<times> (nat \<Rightarrow> nat)" where
  "some_test [] i li p = (False, li)"
| "some_test (rx # rxs) i li p =
     (case rx_test rx (li i) p of
        (True, n) \<Rightarrow> (True, li(i := n))
      | (False, n) \<Rightarrow> some_test rxs (Suc i) (li(i := n)) p)"

definition shouldSkip :: "('b, 'q) opts \<Rightarrow> jsstring \<Rightarrow> ('b, 'q) state \<Rightarrow> bool \<times> ('b, 'q) state" where
  "shouldSkip opts p s =
     (case some_test (skipPaths opts) 0 (lastIndex s) p of
        (b, li) \<Rightarrow> (b, s\<lparr>lastIndex := li\<rparr>))"

section \<open>The request middleware\<close>

text \<open>
  The handler \<open>request()\<close> returns. A handler runs to completion or throws: the first
  component of the result is the exception that left it, if any, the second the state
  it leaves behind. \<open>request_run\<close> is the handler past the skip test.
\<close>

definition request_run ::
  "'b platform \<Rightarrow> ('b, 'q) opts \<Rightarrow> ('b, 'q) state \<Rightarrow> exn option \<times> ('b, 'q) state" where
  "request_run P opts s =
     (let started = hrtime s (hr_reads s);
          s1 = s\<lparr>hr_reads := Suc (hr_reads s)\<rparr>;
          (rid, s2) = or_uuid (get_prop (headers (req s1)) (js ''x-request-id'')) s1;
          s3 = s2\<lparr>req := (req s2)\<lparr>requestId := Some rid\<rparr>\<rparr>
      in case buildTrace opts (env s3) (req s3) of
           Inl e \<Rightarrow> (Some e, s3)
         | Inr tr \<Rightarrow>
             (None,
              call_next None
                (s3\<lparr>finish_listeners :=
                     finish_listeners s3 @
                       [\<lparr>cap_started = started, cap_requestId = rid, cap_trace = tr\<rparr>]\<rparr>)))"

definition request_mw ::
  "'b platform \<Rightarrow> ('b, 'q) opts \<Rightarrow> ('b, 'q) state \<Rightarrow> exn option \<times> ('b, 'q) state" where
  "request_mw P opts s =
     (case shouldSkip opts (path (req s)) s of
        (True, s0) \<Rightarrow> (None, call_next None s0)
      | (False, s0) \<Rightarrow> request_run P opts s0)"

text \<open>
  The listener of \<open>"finish"\<close>. \<open>durationMs\<close> is \<open>Number\<close> of a \<open>BigInt\<close> quotient, which
  truncates towards zero (\<open>sdiv\<close>); \<open>Number\<close> is exact below \<open>2 ^ 53\<close>. The literal is
  evaluated after \<open>getUserId\<close> returned.
\<close>

definition request_entry ::
  "'b platform \<Rightarrow> ('b, 'q) opts \<Rightarrow> closure \<Rightarrow> int \<Rightarrow> jsstring option \<Rightarrow> jsstring option \<Rightarrow>
   ('b, 'q) request \<Rightarrow> response \<Rightarrow> 'q logEntry" where
  "request_entry P opts c durationMs userId bodyText r rs =
     \<lparr> log_severity = statusToSeverity (statusCode rs),
       log_message = js ''HTTP request'',
       log_httpRequest =
         \<lparr> http_requestMethod = req_method r,
           http_requestUrl = requestUrl_of r,
           http_status = statusCode rs,
           http_userAgent = get_prop (headers r) (js ''user-agent''),
           http_referer = get_prop (headers r) (js ''referer''),
           http_protocol = map_option (toUpperCase P) (protocol r),
           http_remoteIp = ip r,
           http_latency = Some (Seconds_of_ms (max durationMs 0)) \<rparr>,
       log_trace = cap_trace c,
       log_requestId = cap_requestId c,
       log_type = js ''request'',
       log_path = path r,
       log_query = query r,
       log_durationMs = Some durationMs,
       log_userId = userId,
       log_host = get_prop (headers r) (js ''host''),
       log_headers = safeHeaders P opts r,
       log_body = bodyText,
       log_stack = None \<rparr>"

definition on_finish ::
  "'b platform \<Rightarrow> ('b, 'q) opts \<Rightarrow> closure \<Rightarrow> ('b, 'q) state \<Rightarrow> exn option \<times> ('b, 'q) state" where
  "on_finish P opts c s =
     (let now = hrtime s (hr_reads s);
          s1 = s\<lparr>hr_reads := Suc (hr_reads s)\<rparr>;
          durationMs = (now - cap_started c) sdiv 1000000
      in case getUserId opts (req s1) of
           Inl e \<Rightarrow> (Some e, s1)
         | Inr userId \<Rightarrow>
             (case safeBody P opts (req s1) of
                Inl e \<Rightarrow> (Some e, s1)
              | Inr bodyText \<Rightarrow>
                  (None,
                   s1\<lparr>stdout :=
                        stdout s1 @
                          [request_entry P opts c durationMs userId bodyText (req s1) (res s1)]\<rparr>)))"

text \<open>The response emits \<open>"finish"\<close>: the listeners run in the order they were registered,
  and an exception leaving one ends the emission.\<close>

fun run_listeners ::
  "'b platform \<Rightarrow> ('b, 'q) opts \<Rightarrow> closure list \<Rightarrow> ('b, 'q) state \<Rightarrow> exn option \<times> ('b, 'q) state" where
  "run_listeners P opts [] s = (None, s)"
| "run_listeners P opts (c # cs) s =
     (case on_finish P opts c s of
        (Some e, s') \<Rightarrow> (Some e, s')
      | (None, s') \<Rightarrow> run_listeners P opts cs s')"

definition emit_finish ::
  "'b platform \<Rightarrow> ('b, 'q) opts \<Rightarrow> ('b, 'q) state \<Rightarrow> exn option \<times> ('b, 'q) state" where
  "emit_finish P opts s = run_listeners P opts (finish_listeners s) s"

section \<open>The error middleware\<close>

definition error_entry ::
  "'b platform \<Rightarrow> ('b, 'q) opts \<Rightarrow> failure \<Rightarrow> hval \<Rightarrow> jsstring option \<Rightarrow> jsstring option \<Rightarrow>
   ('b, 'q) request \<Rightarrow> response \<Rightarrow> 'q logEntry" where
  "error_entry P opts err rid userId tr r rs =
     \<lparr> log_severity = ERROR,
       log_message =
         (if truthy_string (err_message err)
          then nullish (err_message err) (js ''Unhandled error'')
          else js ''Unhandled error''),
       log_httpRequest =
         \<lparr> http_requestMethod = req_method r,
           http_requestUrl = requestUrl_of r,
           http_status = statusCode rs,
           http_userAgent = get_prop (headers r) (js ''user-agent''),
           http_referer = None,
           http_protocol = None,
           http_remoteIp = ip r,
           http_latency = None \<rparr>,
       log_trace = tr,
       log_requestId = rid,
       log_type = js ''error'',
       log_path = path r,
       log_query = None,
       log_durationMs = None,
       log_userId = userId,
       log_host = None,
       log_headers = safeHeaders P opts r,
       log_body = None,
       log_stack = err_stack err \<rparr>"

definition error_mw ::
  "'b platform \<Rightarrow> ('b, 'q) opts \<Rightarrow> failure \<Rightarrow> ('b, 'q) state \<Rightarrow> exn option \<times> ('b, 'q) state" where
  "error_mw P opts err s =
     (let (rid, s1) = or_uuid (requestId (req s)) s
      in case getUserId opts (req s1) of
           Inl e \<Rightarrow> (Some e, s1)
         | Inr userId \<Rightarrow>
             (case buildTrace opts (env s1) (req s1) of
                Inl e \<Rightarrow> (Some e, s1)
              | Inr tr \<Rightarrow>
                  (None,
                   call_next (Some err)
                     (s1\<lparr>stderr :=
                          stderr s1 @ [error_entry P opts err rid userId tr (req s1) (res s1)]\<rparr>))))"

section \<open>The specification's words for trace derivation\<close>

text \<open>
  The project identifier is the first non-empty value among the variables
  \<open>GOOGLE_CLOUD_PROJECT\<close>, \<open>GCLOUD_PROJECT\<close> and the configured one, looked up in that
  order; the trace identifier is the header's text before its first \<open>/\<close>; the reference
  is \<open>projects/{project}/traces/{trace}\<close> when both are non-empty, and nothing otherwise.
\<close>

definition spec_project :: "('b, 'q) opts \<Rightarrow> (jsstring \<Rightarrow> jsstring option) \<Rightarrow> jsstring option" where
  "spec_project opts penv =
     find (\<lambda>p. p \<noteq> [])
       (List.map_filter penv [js ''GOOGLE_CLOUD_PROJECT'', js ''GCLOUD_PROJECT'', projectIdEnvVar opts])"

definition spec_trace_id :: "jsstring \<Rightarrow> jsstring" where
  "spec_trace_id header = takeWhile (\<lambda>u. u \<noteq> of_char CHR ''/'') header"

definition spec_trace :: "('b, 'q) opts \<Rightarrow> (jsstring \<Rightarrow> jsstring option) \<Rightarrow> jsstring \<Rightarrow> jsstring option" where
  "spec_trace opts penv header =
     (case spec_project opts penv of
        None \<Rightarrow> None
      | Some p \<Rightarrow>
          if spec_trace_id header = [] then None
          else Some (js ''projects/'' @ p @ js ''/traces/'' @ spec_trace_id header))"

section \<open>The specification's words for redaction\<close>

text \<open>A header name matches a configured name case-insensitively when the two have the
  same lower-cased form.\<close>

definition spec_masked :: "'b platform \<Rightarrow> jsstring list \<Rightarrow> jsstring \<Rightarrow> bool" where
  "spec_masked P names k = (\<exists>n \<in> set names. toLowerCase P k = toLowerCase P n)"

section \<open>A concrete platform, the application's logger and a request\<close>

text \<open>
  Concrete inputs on which the theorems below are instantiated. The platform lowers and
  raises ASCII letters, which is what \<open>toLowerCase\<close> and \<open>toUpperCase\<close> do on ASCII
  text, and its bodies are already what \<open>JSON.stringify\<close> makes of them. \<open>app_logger\<close>
  is the instance the application creates with \<open>new GcpLogger()\<close>. The request is one
  as Node's parser delivers it: repeated \<open>set-cookie\<close> fields form an array, every other
  field is one string.
\<close>

definition ascii_lower :: "jsstring \<Rightarrow> jsstring" where
  "ascii_lower s = map (\<lambda>u. if 0x41 \<le> u \<and> u \<le> 0x5A then u + 0x20 else u) s"

definition ascii_upper :: "jsstring \<Rightarrow> jsstring" where
  "ascii_upper s = map (\<lambda>u. if 0x61 \<le> u \<and> u \<le> 0x7A then u - 0x20 else u) s"

definition demo_platform :: "(exn + jsstring option) platform" where
  "demo_platform =
     \<lparr> toLowerCase = ascii_lower, toUpperCase = ascii_upper, JSON_stringify = (\<lambda>b. b) \<rparr>"

definition no_options :: "(exn + jsstring option, unit) GcpLoggerOptions" where
  "no_options =
     \<lparr> opt_redactHeaders = None, opt_captureBody = None, opt_maxBodyLength = None,
       opt_getUserId = None, opt_skipPaths = None, opt_projectIdEnvVar = None \<rparr>"

definition app_logger :: "(exn + jsstring option, unit) opts" where
  "app_logger = GcpLogger demo_platform no_options"

definition demo_request :: "(exn + jsstring option, unit) request" where
  "demo_request =
     \<lparr> headers =
         [(js ''x-request-id'', Some (HStr (js ''req-42''))),
          (js ''Authorization'', Some (HStr (js ''Bearer t0ken''))),
          (js ''set-cookie'', Some (HArr [js ''a=1'', js ''b=2''])),
          (js ''x-cloud-trace-context'', Some (HStr (js ''abc123/1;o=1''))),
          (js ''host'', Some (HStr (js ''api.example.test''))),
          (js ''referer'', Some (HStr (js ''https://example.test/''))),
          (js ''user-agent'', Some (HStr (js ''curl/8.5.0'')))],
       path = js ''/api/items'',
       req_method = js ''GET'',
       originalUrl = Some (js ''/api/items?x=1''),
       url = js ''/items?x=1'',
       protocol = Some (js ''https''),
       ip = Some (js ''10.0.0.7''),
       query = Some (),
       body = StringBody (js ''abcdefghijklmnop''),
       requestId = None \<rparr>"

definition demo_state :: "(exn + jsstring option, unit) state" where
  "demo_state =
     \<lparr> env = (\<lambda>n. if n = js ''GOOGLE_CLOUD_PROJECT'' then Some (js ''proj1'') else None),
       hrtime = (\<lambda>n. 1000000 * (3 + 7 * int n)),
       hr_reads = 0,
       randomUUID = (\<lambda>n. js ''uuid-'' @ [0x30 + of_nat n]),
       uuid_calls = 0,
       req = demo_request,
       res = \<lparr> statusCode = 200 \<rparr>,
       finish_listeners = [],
       next_calls = [],
       stdout = [],
       stderr = [],
       lastIndex = (\<lambda>i. 0) \<rparr>"

text \<open>The closure of the listener that \<open>request()\<close> registers for that request.\<close>

definition demo_closure :: closure where
  "demo_closure =
     \<lparr> cap_started = 3000000, cap_requestId = HStr (js ''req-42''),
       cap_trace = Some (js ''projects/proj1/traces/abc123'') \<rparr>"

text \<open>The request with an \<open>x-request-id\<close> header whose value is the empty string.\<close>

definition empty_id_state :: "(exn + jsstring option, unit) state" where
  "empty_id_state =
     demo_state\<lparr>req := demo_request\<lparr>headers := [(js ''x-request-id'', Some (HStr (js '''')))]\<rparr>\<rparr>"

text \<open>The logger \<open>new GcpLogger({ skipPaths: [/^\/healthz$/g] })\<close> and a request for
  \<open>/healthz\<close>.\<close>

definition global_skip_logger :: "(exn + jsstring option, unit) opts" where
  "global_skip_logger = app_logger\<lparr>skipPaths := [anchored_literal (js ''/healthz'') True]\<rparr>"

definition healthz_state :: "(exn + jsstring option, unit) state" where
  "healthz_state = demo_state\<lparr>req := demo_request\<lparr>path := js ''/healthz''\<rparr>\<rparr>"

text \<open>Failures: one with the message \<open>boom\<close> and no stack, one whose message is the empty
  string (\<open>new Error("")\<close> without its stack). A logger whose user-id callback throws.\<close>

definition boom :: failure where
  "boom = \<lparr> err_message = Some (js ''boom''), err_stack = None \<rparr>"

definition empty_failure :: failure where
  "empty_failure = \<lparr> err_message = Some (js ''''), err_stack = None \<rparr>"

definition throwing_logger :: "(exn + jsstring option, unit) opts" where
  "throwing_logger = app_logger\<lparr>getUserId := (\<lambda>_. Inl (Thrown (js ''no session'')))\<rparr>"

text \<open>
  Inputs the platform does not deliver, kept to show what the hypotheses of the theorems
  exclude: a header object with an own key \<open>__proto__\<close>, a trace header that is an array,
  and a clock whose reading at completion is below the reading at the start.
\<close>

definition proto_request :: "(exn + jsstring option, unit) request" where
  "proto_request =
     demo_request\<lparr>headers :=
       [(js ''__proto__'', Some (HStr (js ''x''))),
        (js ''Cookie'', Some (HStr (js ''sid=1'')))]\<rparr>"

definition array_trace_request :: "(exn + jsstring option, unit) request" where
  "array_trace_request =
     demo_request\<lparr>headers := [(js ''x-cloud-trace-context'', Some (HArr [js ''abc123/1;o=1'']))]\<rparr>"

definition backwards_state :: "(exn + jsstring option, unit) state" where
  "backwards_state = demo_state\<lparr>hrtime := (\<lambda>n. 3000000 - 5000000 * int n)\<rparr>"

section \<open>Evaluating literals\<close>

lemma js_Nil: "js [] = []"
  by (simp add: js_def)

lemma js_Cons: "js (c # cs) = of_char c # js cs"
  by (simp add: js_def)

lemma app_logger_simps:
  "redactHeaders app_logger = [js ''authorization'', js ''cookie'']"
  "captureBody app_logger = False"
  "maxBodyLength app_logger = 10000"
  "getUserId app_logger = (\<lambda>_. Inr None)"
  "skipPaths app_logger = default_skipPaths"
  "projectIdEnvVar app_logger = js ''GCP_PROJECT''"
  by (simp_all add: app_logger_def GcpLogger_def nullish_def no_options_def demo_platform_def
      ascii_lower_def js_Nil js_Cons)

lemma demo_state_empty:
  "stdout demo_state = []" "stderr demo_state = []" "next_calls demo_state = []"
  "finish_listeners demo_state = []" "hr_reads demo_state = 0" "uuid_calls demo_state = 0"
  "req demo_state = demo_request" "lastIndex demo_state = (\<lambda>i. 0)"
  by (simp_all add: demo_state_def)

section \<open>Trace derivation against the specification's words\<close>

lemma split_hd: "index0 (split c s) = Some (takeWhile (\<lambda>u. u \<noteq> c) s)"
  by (induction s) (auto simp: index0_def split: list.splits)

lemma spec_project_or:
  "spec_project opts penv =
     (let v = js_or (js_or (penv (js ''GOOGLE_CLOUD_PROJECT'')) (penv (js ''GCLOUD_PROJECT'')))
                (penv (projectIdEnvVar opts))
      in if truthy_string v then v else None)"
  by (cases "penv (js ''GOOGLE_CLOUD_PROJECT'')"; cases "penv (js ''GCLOUD_PROJECT'')";
      cases "penv (projectIdEnvVar opts)")
     (simp_all add: spec_project_def js_or_def truthy_string_def)

lemma buildTrace_string:
  "(case (case h of Some (HArr xs) \<Rightarrow> Inl TypeError
               | Some (HStr s) \<Rightarrow> Inr (if s \<noteq> [] then s else js '''')
               | None \<Rightarrow> Inr (js '''')) of
      Inl e \<Rightarrow> Inl e | Inr t \<Rightarrow> Inr (f t)) =
   (case h of None \<Rightarrow> Inr (f []) | Some (HStr t) \<Rightarrow> Inr (f t) | Some (HArr xs) \<Rightarrow> Inl TypeError)"
  by (simp add: js_def split: option.splits hval.splits)

lemma buildTrace_text:
  "buildTrace opts penv r =
     (case get_prop (headers r) (js ''x-cloud-trace-context'') of
        None \<Rightarrow> Inr (spec_trace opts penv [])
      | Some (HStr t) \<Rightarrow> Inr (spec_trace opts penv t)
      | Some (HArr xs) \<Rightarrow> Inl TypeError)"
proof -
  define v where "v = js_or (js_or (penv (js ''GOOGLE_CLOUD_PROJECT'')) (penv (js ''GCLOUD_PROJECT'')))
                (penv (projectIdEnvVar opts))"
  have tr: "spec_trace opts penv t =
      (if truthy_string v \<and> truthy_string (index0 (split (of_char CHR ''/'') t))
       then (case (v, index0 (split (of_char CHR ''/'') t)) of
               (Some p, Some i) \<Rightarrow> Some (js ''projects/'' @ p @ js ''/traces/'' @ i)
             | _ \<Rightarrow> None)
       else None)" for t
    by (cases v) (simp_all add: spec_trace_def spec_project_or v_def [symmetric] Let_def split_hd
          spec_trace_id_def truthy_string_def)
  have "buildTrace opts penv r =
     (case (case get_prop (headers r) (js ''x-cloud-trace-context'') of
              Some (HArr xs) \<Rightarrow> Inl TypeError
            | Some (HStr s) \<Rightarrow> Inr (if s \<noteq> [] then s else js '''')
            | None \<Rightarrow> Inr (js '''')) of
        Inl e \<Rightarrow> Inl e | Inr t \<Rightarrow> Inr (spec_trace opts penv t))"
    unfolding buildTrace_def Let_def v_def [symmetric] tr
    by (simp split: sum.splits prod.splits option.splits)
  then show ?thesis by (simp only: buildTrace_string)
qed

lemma spec_project_unset:
  "penv (js ''GOOGLE_CLOUD_PROJECT'') = None \<Longrightarrow> penv (js ''GCLOUD_PROJECT'') = None \<Longrightarrow>
   penv (projectIdEnvVar opts) = None \<Longrightarrow> spec_project opts penv = None"
  by (simp add: spec_project_def)

lemma demo_trace_header:
  "get_prop (headers demo_request) (js ''x-cloud-trace-context'') = Some (HStr (js ''abc123/1;o=1''))"
  by (simp add: get_prop_def demo_request_def js_Nil js_Cons)

lemma demo_spec_trace:
  "projectIdEnvVar opts = js ''GCP_PROJECT'' \<Longrightarrow>
   spec_trace opts (env demo_state) (js ''abc123/1;o=1'') = Some (js ''projects/proj1/traces/abc123'')"
  by (simp add: spec_trace_def spec_project_def spec_trace_id_def demo_state_def js_Nil js_Cons)

section \<open>Running the handlers\<close>

lemma or_uuid_truthy: "truthy (Some x) \<Longrightarrow> or_uuid (Some x) s = (x, s)"
  by (simp add: or_uuid_def)

lemma or_uuid_falsy: "\<not> truthy v \<Longrightarrow> or_uuid v s = fresh_uuid s"
  by (cases v) (simp_all add: or_uuid_def)

lemma or_uuid_frame: "or_uuid v s = (rid, s1) \<Longrightarrow> s1 = s\<lparr>uuid_calls := uuid_calls s1\<rparr>"
  by (auto simp: or_uuid_def fresh_uuid_def split: option.splits if_splits)

lemma or_uuid_result:
  "or_uuid v s = (rid, s1) \<Longrightarrow>
   (if truthy v then v = Some rid \<and> s1 = s
    else rid = HStr (randomUUID s (uuid_calls s)) \<and> s1 = s\<lparr>uuid_calls := Suc (uuid_calls s)\<rparr>)"
  by (cases v) (auto simp: or_uuid_def fresh_uuid_def split: if_splits)

lemma or_uuid_keeps:
  "stderr (snd (or_uuid v s)) = stderr s" "stdout (snd (or_uuid v s)) = stdout s"
  "next_calls (snd (or_uuid v s)) = next_calls s" "req (snd (or_uuid v s)) = req s"
  by (auto simp: or_uuid_def fresh_uuid_def split: option.splits)

lemma on_finish_Inr:
  "getUserId opts (req t) = Inr u \<Longrightarrow> safeBody P opts (req t) = Inr b \<Longrightarrow>
   on_finish P opts c t =
     (None, t\<lparr>hr_reads := Suc (hr_reads t),
              stdout := stdout t @
                [request_entry P opts c ((hrtime t (hr_reads t) - cap_started c) sdiv 1000000)
                   u b (req t) (res t)]\<rparr>)"
  by (simp add: on_finish_def Let_def)

lemma on_finish_Inl:
  "getUserId opts (req t) = Inl e \<Longrightarrow> on_finish P opts c t = (Some e, t\<lparr>hr_reads := Suc (hr_reads t)\<rparr>)"
  by (simp add: on_finish_def Let_def)

lemma on_finish_entry:
  assumes "on_finish P opts c t = (None, t')"
  shows "\<exists>u b. stdout t' = stdout t @
           [request_entry P opts c ((hrtime t (hr_reads t) - cap_started c) sdiv 1000000)
              u b (req t) (res t)]"
  using assms
  by (fastforce simp: on_finish_def Let_def split: sum.splits)

lemma error_mw_Inr:
  assumes "getUserId opts (req t) = Inr u" and "buildTrace opts (env t) (req t) = Inr tr"
  shows "error_mw P opts err t =
     (None, (snd (or_uuid (requestId (req t)) t))
              \<lparr>stderr := stderr t @
                 [error_entry P opts err (fst (or_uuid (requestId (req t)) t)) u tr (req t) (res t)],
               next_calls := next_calls t @ [Some err]\<rparr>)"
proof -
  obtain rid t1 where o: "or_uuid (requestId (req t)) t = (rid, t1)"
    by (cases "or_uuid (requestId (req t)) t")
  from or_uuid_frame [OF o] have f: "req t1 = req t" "env t1 = env t" "stderr t1 = stderr t"
      "res t1 = res t" "next_calls t1 = next_calls t"
    by (metis state.select_convs state.surjective state.update_convs)+
  show ?thesis
    using assms by (simp add: error_mw_def o f call_next_def)
qed

lemma error_mw_Inl:
  assumes "getUserId opts (req t) = Inl e"
  shows "error_mw P opts err t = (Some e, snd (or_uuid (requestId (req t)) t))"
proof -
  obtain rid t1 where o: "or_uuid (requestId (req t)) t = (rid, t1)"
    by (cases "or_uuid (requestId (req t)) t")
  from or_uuid_frame [OF o] have f: "req t1 = req t"
    by (metis state.select_convs state.surjective state.update_convs)
  show ?thesis
    using assms by (simp add: error_mw_def o f)
qed

lemma error_mw_trace_Inl:
  assumes "getUserId opts (req t) = Inr u" and "buildTrace opts (env t) (req t) = Inl e"
  shows "error_mw P opts err t = (Some e, snd (or_uuid (requestId (req t)) t))"
proof -
  obtain rid t1 where o: "or_uuid (requestId (req t)) t = (rid, t1)"
    by (cases "or_uuid (requestId (req t)) t")
  from or_uuid_frame [OF o] have f: "req t1 = req t" "env t1 = env t"
    by (metis state.select_convs state.surjective state.update_convs)+
  show ?thesis
    using assms by (simp add: error_mw_def o f)
qed

lemma error_mw_entry:
  assumes "error_mw P opts err t = (None, t')"
  shows "\<exists>rid u tr. stderr t' = stderr t @ [error_entry P opts err rid u tr (req t) (res t)]
           \<and> stdout t' = stdout t \<and> next_calls t' = next_calls t @ [Some err]"
proof (cases "getUserId opts (req t)")
  case (Inl e)
  then show ?thesis using assms by (simp add: error_mw_Inl)
next
  case (Inr u)
  show ?thesis
  proof (cases "buildTrace opts (env t) (req t)")
    case (Inl e)
    then show ?thesis using assms Inr by (simp add: error_mw_trace_Inl)
  next
    case tr: (Inr tr)
    from assms show ?thesis
      by (fastforce simp: error_mw_Inr [OF Inr tr] or_uuid_keeps)
  qed
qed

lemma request_run_eq:
  assumes "or_uuid (get_prop (headers (req s)) (js ''x-request-id'')) (s\<lparr>hr_reads := Suc (hr_reads s)\<rparr>) = (rid, s2)"
  shows "request_run P opts s =
     (case buildTrace opts (env s) ((req s)\<lparr>requestId := Some rid\<rparr>) of
        Inl e \<Rightarrow> (Some e, s2\<lparr>req := (req s)\<lparr>requestId := Some rid\<rparr>\<rparr>)
      | Inr tr \<Rightarrow>
          (None, s2\<lparr>req := (req s)\<lparr>requestId := Some rid\<rparr>,
                    finish_listeners := finish_listeners s @
                      [\<lparr>cap_started = hrtime s (hr_reads s), cap_requestId = rid, cap_trace = tr\<rparr>],
                    next_calls := next_calls s @ [None]\<rparr>))"
proof -
  from or_uuid_frame [OF assms]
  have f: "req s2 = req s" "env s2 = env s" "finish_listeners s2 = finish_listeners s"
      "next_calls s2 = next_calls s"
    by (metis state.select_convs state.surjective state.update_convs)+
  show ?thesis
    using assms by (simp add: request_run_def Let_def f call_next_def split: sum.splits)
qed

text \<open>On a state whose request has the headers of \<open>demo_request\<close>, the handler past the
  skip test keeps the inbound identifier and registers \<open>demo_closure\<close>.\<close>

lemma demo_request_run:
  assumes "headers (req s) = headers demo_request" and "env s = env demo_state"
      and "hrtime s (hr_reads s) = 3000000" and "projectIdEnvVar opts = js ''GCP_PROJECT''"
  shows "request_run P opts s =
     (None, s\<lparr>hr_reads := Suc (hr_reads s),
              req := (req s)\<lparr>requestId := Some (HStr (js ''req-42''))\<rparr>,
              finish_listeners := finish_listeners s @ [demo_closure],
              next_calls := next_calls s @ [None]\<rparr>)"
proof -
  have h: "get_prop (headers (req s)) (js ''x-request-id'') = Some (HStr (js ''req-42''))"
    by (simp add: assms(1) demo_request_def get_prop_def)
  have o: "or_uuid (get_prop (headers (req s)) (js ''x-request-id'')) (s\<lparr>hr_reads := Suc (hr_reads s)\<rparr>)
      = (HStr (js ''req-42''), s\<lparr>hr_reads := Suc (hr_reads s)\<rparr>)"
    unfolding h by (rule or_uuid_truthy) (simp add: js_Cons)
  have b: "buildTrace opts (env s) ((req s)\<lparr>requestId := Some (HStr (js ''req-42''))\<rparr>)
      = Inr (Some (js ''projects/proj1/traces/abc123''))"
    by (simp add: buildTrace_text assms(1,2) demo_trace_header demo_spec_trace [OF assms(4)])
  show ?thesis
    unfolding request_run_eq [OF o] b by (simp add: assms(3) demo_closure_def)
qed

section \<open>Skipped paths\<close>

lemma rx_test_no_flag:
  "\<not> rx_global rx \<Longrightarrow> \<not> rx_sticky rx \<Longrightarrow> rx_test rx li s = (rx_search rx s 0 \<noteq> None, li)"
  by (simp add: rx_test_def split: option.splits)

lemma some_test_no_flag:
  "list_all (\<lambda>rx. \<not> rx_global rx \<and> \<not> rx_sticky rx) rxs \<Longrightarrow>
   some_test rxs i li p = (list_ex (\<lambda>rx. rx_search rx p 0 \<noteq> None) rxs, li)"
  by (induction rxs arbitrary: i) (auto simp: rx_test_no_flag split: bool.splits)

lemma shouldSkip_no_flag:
  "list_all (\<lambda>rx. \<not> rx_global rx \<and> \<not> rx_sticky rx) (skipPaths opts) \<Longrightarrow>
   shouldSkip opts p s = (list_ex (\<lambda>rx. rx_search rx p 0 \<noteq> None) (skipPaths opts), s)"
  by (simp add: shouldSkip_def some_test_no_flag)

lemma shouldSkip_frame:
  "shouldSkip opts p s = (b, s0) \<Longrightarrow> s0 = s\<lparr>lastIndex := lastIndex s0\<rparr>"
  by (auto simp: shouldSkip_def split: prod.splits)

text \<open>
  With patterns that have neither the flag \<open>g\<close> nor the flag \<open>y\<close>, as the defaults,
  \<open>shouldSkip\<close> changes nothing and is true exactly when some pattern matches the path;
  a skipped request then only calls \<open>next()\<close>.
\<close>

lemma skip_passes_through:
  assumes "list_all (\<lambda>rx. \<not> rx_global rx \<and> \<not> rx_sticky rx) (skipPaths opts)"
      and "list_ex (\<lambda>rx. rx_search rx (path (req s)) 0 \<noteq> None) (skipPaths opts)"
  shows "request_mw P opts s = (None, s\<lparr>next_calls := next_calls s @ [None]\<rparr>)"
  using assms by (simp add: request_mw_def shouldSkip_no_flag call_next_def)

lemma default_no_flag: "list_all (\<lambda>rx. \<not> rx_global rx \<and> \<not> rx_sticky rx) (skipPaths app_logger)"
  by (simp add: app_logger_simps default_skipPaths_def anchored_literal_def)

lemma demo_not_skipped: "shouldSkip app_logger (js ''/api/items'') s = (False, s)"
  by (simp add: shouldSkip_no_flag [OF default_no_flag] app_logger_simps default_skipPaths_def
      anchored_literal_def js_Nil js_Cons)

text \<open>
  C5. \<open>shouldSkip\<close> is to be true exactly when some pattern matches the path, and a
  request with a matching path is to pass through with no entry, no timer and no
  identifier. With a pattern that carries the flag \<open>g\<close> the code does not do so:
  \<open>rx.test\<close> leaves \<open>lastIndex\<close> at the end of the match, and the next test of the same
  path starts there and fails. For \<open>skipPaths: [/^\/healthz$/g]\<close> the first request for
  \<open>/healthz\<close> is skipped and the second is not: it reads the clock, is given an
  identifier and registers a listener, which writes an entry.
\<close>

theorem skip_alternates_with_g_flag:
  "path (req healthz_state) = js ''/healthz''
   \<and> fst (shouldSkip global_skip_logger (js ''/healthz'') healthz_state)
   \<and> \<not> fst (shouldSkip global_skip_logger (js ''/healthz'')
              (snd (shouldSkip global_skip_logger (js ''/healthz'') healthz_state)))
   \<and> hr_reads (snd (request_mw demo_platform global_skip_logger
                      (snd (request_mw demo_platform global_skip_logger healthz_state)))) = 1
   \<and> requestId (req (snd (request_mw demo_platform global_skip_logger
                      (snd (request_mw demo_platform global_skip_logger healthz_state)))))
       = Some (HStr (js ''req-42''))
   \<and> length (finish_listeners (snd (request_mw demo_platform global_skip_logger
                      (snd (request_mw demo_platform global_skip_logger healthz_state))))) = 1
   \<and> length (stdout (snd (emit_finish demo_platform global_skip_logger
              (snd (request_mw demo_platform global_skip_logger
                      (snd (request_mw demo_platform global_skip_logger healthz_state))))))) = 1"
proof -
  let ?L = global_skip_logger
  let ?s1 = "healthz_state\<lparr>lastIndex := (\<lambda>i. 0)(0 := 8)\<rparr>"
  let ?s2 = "healthz_state\<lparr>lastIndex := (\<lambda>i. 0)(0 := 0)\<rparr>"
  have p: "path (req healthz_state) = js ''/healthz''"
    by (simp add: healthz_state_def)
  have len: "length (js ''/healthz'') = 8"
    by (simp add: js_def)
  have sk: "skipPaths ?L = [anchored_literal (js ''/healthz'') True]"
    by (simp add: global_skip_logger_def)
  have li: "lastIndex healthz_state = (\<lambda>i. 0)"
    by (simp add: healthz_state_def demo_state_def)
  have t1: "shouldSkip ?L (js ''/healthz'') healthz_state = (True, ?s1)"
    by (simp add: shouldSkip_def sk li rx_test_def anchored_literal_def len)
  have t2: "shouldSkip ?L (js ''/healthz'') ?s1 = (False, ?s2)"
    by (simp add: shouldSkip_def sk rx_test_def anchored_literal_def len)
  have r1: "request_mw demo_platform ?L healthz_state = (None, call_next None ?s1)"
    by (simp add: request_mw_def p t1)
  have t2': "shouldSkip ?L (js ''/healthz'') (call_next None ?s1) = (False, call_next None ?s2)"
    by (simp add: shouldSkip_def sk rx_test_def anchored_literal_def len call_next_def)
  have pc: "path (req (call_next None ?s1)) = js ''/healthz''"
    by (simp add: call_next_def p)
  have r2: "request_mw demo_platform ?L (call_next None ?s1) =
      request_run demo_platform ?L (call_next None ?s2)"
    by (simp add: request_mw_def pc t2')
  let ?t = "call_next None ?s2"
  have t: "headers (req ?t) = headers demo_request" "env ?t = env demo_state"
      "hrtime ?t (hr_reads ?t) = 3000000" "hr_reads ?t = 0" "finish_listeners ?t = []"
      "stdout ?t = []"
    by (simp_all add: call_next_def healthz_state_def demo_state_def)
  have pe: "projectIdEnvVar ?L = js ''GCP_PROJECT''"
    by (simp add: global_skip_logger_def app_logger_simps)
  note run = demo_request_run [OF t(1,2,3) pe, of demo_platform]
  let ?s3 = "snd (request_run demo_platform ?L ?t)"
  have u: "getUserId ?L r = Inr None" for r
    by (simp add: global_skip_logger_def app_logger_simps)
  have sb: "safeBody demo_platform ?L r = Inr None" for r
    by (simp add: safeBody_def global_skip_logger_def app_logger_simps)
  have 1: "hr_reads ?s3 = 1" "requestId (req ?s3) = Some (HStr (js ''req-42''))"
      "length (finish_listeners ?s3) = 1"
    by (simp_all add: run t)
  have 2: "length (stdout (snd (emit_finish demo_platform ?L ?s3))) = 1"
    by (simp add: emit_finish_def run t on_finish_Inr [OF u sb])
  show ?thesis
    using p 1 2 by (simp add: r1 r2 t1 t2)
qed

section \<open>Header redaction\<close>

lemma step_map_of:
  "map_of (safeHeaders_step P opts (k', v') acc) k =
     (if k = k' \<and> k' \<noteq> js ''__proto__''
      then Some (if toLowerCase P k' \<in> set (redactHeaders opts) then REDACTED else v')
      else map_of acc k)"
  by (simp add: safeHeaders_step_def assign_prop_def update_conv')

lemma fold_step_map_of:
  "distinct (map fst hs) \<Longrightarrow>
   map_of (fold (safeHeaders_step P opts) hs acc) k =
     (if k \<in> fst ` set hs \<and> k \<noteq> js ''__proto__''
      then Some (if toLowerCase P k \<in> set (redactHeaders opts) then REDACTED
                 else the (map_of hs k))
      else map_of acc k)"
proof (induction hs arbitrary: acc)
  case Nil
  then show ?case by simp
next
  case (Cons kv hs)
  obtain k' v' where kv: "kv = (k', v')" by (cases kv)
  from Cons.prems have d: "distinct (map fst hs)" and nin: "k' \<notin> fst ` set hs"
    by (auto simp: kv)
  have "map_of (fold (safeHeaders_step P opts) (kv # hs) acc) k =
        map_of (fold (safeHeaders_step P opts) hs (safeHeaders_step P opts (k', v') acc)) k"
    by (simp add: kv)
  also have "\<dots> = (if k \<in> fst ` set hs \<and> k \<noteq> js ''__proto__''
      then Some (if toLowerCase P k \<in> set (redactHeaders opts) then REDACTED
                 else the (map_of hs k))
      else map_of (safeHeaders_step P opts (k', v') acc) k)"
    by (rule Cons.IH [OF d])
  finally show ?case
    using nin by (auto simp: kv step_map_of)
qed

text \<open>
  On a header object without an own key \<open>__proto__\<close>, \<open>safeHeaders\<close> keeps every name,
  masks the value of each name whose lower-cased form is among the stored names, and
  leaves every other value (a string, an array or \<open>undefined\<close>) as it is. The stored
  names are the configured ones lower-cased, so the test is a comparison of lower-cased
  forms.
\<close>

lemma safeHeaders_entry:
  assumes "distinct (map fst (headers r))" and "(k, v) \<in> set (headers r)" and "k \<noteq> js ''__proto__''"
  shows "map_of (safeHeaders P opts r) k =
           Some (if toLowerCase P k \<in> set (redactHeaders opts) then REDACTED else v)"
proof -
  from assms(1,2) have "map_of (headers r) k = Some v" by simp
  moreover from assms(2) have "k \<in> fst ` set (headers r)" by force
  ultimately show ?thesis
    using fold_step_map_of [OF assms(1), of P opts "[]" k] assms(3)
    by (simp add: safeHeaders_def)
qed

lemma safeHeaders_no_other_key:
  assumes "distinct (map fst (headers r))" and "k \<notin> fst ` set (headers r)"
  shows "map_of (safeHeaders P opts r) k = None"
  using fold_step_map_of [OF assms(1), of P opts "[]" k] assms(2)
  by (simp add: safeHeaders_def)

lemma safeHeaders_keys:
  assumes "distinct (map fst (headers r))" and "js ''__proto__'' \<notin> fst ` set (headers r)"
  shows "fst ` set (safeHeaders P opts r) = fst ` set (headers r)"
proof -
  have "map_of (safeHeaders P opts r) k \<noteq> None \<longleftrightarrow> k \<in> fst ` set (headers r)" for k
    using fold_step_map_of [OF assms(1), of P opts "[]" k] assms(2)
    by (cases "k = js ''__proto__''") (simp_all add: safeHeaders_def)
  then have "dom (map_of (safeHeaders P opts r)) = fst ` set (headers r)"
    by (auto simp: dom_def)
  then show ?thesis by (simp add: dom_map_of_conv_image_fst)
qed

lemma redacted_iff:
  "toLowerCase P k \<in> set (redactHeaders (GcpLogger P options)) \<longleftrightarrow>
   spec_masked P (nullish (opt_redactHeaders options) [js ''authorization'', js ''cookie'']) k"
  by (auto simp: GcpLogger_def spec_masked_def)

lemma entry_headers:
  "log_headers (request_entry P opts c d u b r rs) = safeHeaders P opts r"
  "log_headers (error_entry P opts err rid u tr r rs) = safeHeaders P opts r"
  by (simp_all add: request_entry_def error_entry_def)

text \<open>
  C1. The header object of a request, as Node's parser fills it, holds each name once
  and has no own key \<open>__proto__\<close> (the parser assigns onto a plain object). For every
  such request, the \<open>headers\<close> field of every entry the completion listener or the error
  middleware emits has exactly the names of the request; a name that matches a
  configured redacted name case-insensitively (the defaults are \<open>authorization\<close> and
  \<open>cookie\<close>) carries \<open>[REDACTED]\<close>, and every other name carries the request's value
  unmodified, be it a string or an array of strings.
\<close>

theorem headers_redacted:
  assumes "distinct (map fst (headers (req s)))"
      and "js ''__proto__'' \<notin> fst ` set (headers (req s))"
      and "(k, v) \<in> set (headers (req s))"
  shows "(\<forall>c s'. on_finish P (GcpLogger P options) c s = (None, s') \<longrightarrow>
            (\<exists>e. stdout s' = stdout s @ [e]
                \<and> fst ` set (log_headers e) = fst ` set (headers (req s))
                \<and> map_of (log_headers e) k =
                    Some (if spec_masked P (nullish (opt_redactHeaders options)
                                             [js ''authorization'', js ''cookie'']) k
                          then REDACTED else v)))
       \<and> (\<forall>err s'. error_mw P (GcpLogger P options) err s = (None, s') \<longrightarrow>
            (\<exists>e. stderr s' = stderr s @ [e]
                \<and> fst ` set (log_headers e) = fst ` set (headers (req s))
                \<and> map_of (log_headers e) k =
                    Some (if spec_masked P (nullish (opt_redactHeaders options)
                                             [js ''authorization'', js ''cookie'']) k
                          then REDACTED else v)))"
proof -
  let ?L = "GcpLogger P options"
  have keys: "fst ` set (safeHeaders P ?L (req s)) = fst ` set (headers (req s))"
    by (rule safeHeaders_keys [OF assms(1,2)])
  have np: "k \<noteq> js ''__proto__''"
    using assms(2,3) by force
  have val: "map_of (safeHeaders P ?L (req s)) k =
      Some (if spec_masked P (nullish (opt_redactHeaders options)
                               [js ''authorization'', js ''cookie'']) k
            then REDACTED else v)"
    using safeHeaders_entry [OF assms(1,3) np, of P ?L] by (simp only: redacted_iff)
  show ?thesis
  proof (intro conjI allI impI)
    fix c s'
    assume "on_finish P ?L c s = (None, s')"
    from on_finish_entry [OF this] keys val
    show "\<exists>e. stdout s' = stdout s @ [e]
                \<and> fst ` set (log_headers e) = fst ` set (headers (req s))
                \<and> map_of (log_headers e) k =
                    Some (if spec_masked P (nullish (opt_redactHeaders options)
                                             [js ''authorization'', js ''cookie'']) k
                          then REDACTED else v)"
      by (auto simp: entry_headers)
  next
    fix err s'
    assume "error_mw P ?L err s = (None, s')"
    from error_mw_entry [OF this] keys val
    show "\<exists>e. stderr s' = stderr s @ [e]
                \<and> fst ` set (log_headers e) = fst ` set (headers (req s))
                \<and> map_of (log_headers e) k =
                    Some (if spec_masked P (nullish (opt_redactHeaders options)
                                             [js ''authorization'', js ''cookie'']) k
                          then REDACTED else v)"
      by (auto simp: entry_headers)
  qed
qed

lemma demo_headers_wf:
  "distinct (map fst (headers (req demo_state)))"
  "js ''__proto__'' \<notin> fst ` set (headers (req demo_state))"
  by (simp_all add: demo_state_def demo_request_def js_Nil js_Cons)

theorem headers_redacted_witness:
  "distinct (map fst (headers (req demo_state)))
   \<and> js ''__proto__'' \<notin> fst ` set (headers (req demo_state))
   \<and> (js ''Authorization'', Some (HStr (js ''Bearer t0ken''))) \<in> set (headers (req demo_state))
   \<and> (js ''set-cookie'', Some (HArr [js ''a=1'', js ''b=2''])) \<in> set (headers (req demo_state))
   \<and> map (\<lambda>e. map_of (log_headers e) (js ''Authorization''))
        (stdout (snd (on_finish demo_platform app_logger demo_closure demo_state)))
       = [Some REDACTED]
   \<and> map (\<lambda>e. map_of (log_headers e) (js ''set-cookie''))
        (stdout (snd (on_finish demo_platform app_logger demo_closure demo_state)))
       = [Some (Some (HArr [js ''a=1'', js ''b=2'']))]"
proof -
  have a: "(js ''Authorization'', Some (HStr (js ''Bearer t0ken''))) \<in> set (headers (req demo_state))"
    and c: "(js ''set-cookie'', Some (HArr [js ''a=1'', js ''b=2''])) \<in> set (headers (req demo_state))"
    by (simp_all add: demo_state_def demo_request_def)
  have ma: "spec_masked demo_platform (nullish (opt_redactHeaders no_options)
              [js ''authorization'', js ''cookie'']) (js ''Authorization'')"
    by (simp add: spec_masked_def nullish_def no_options_def demo_platform_def ascii_lower_def
        js_Nil js_Cons)
  have mc: "\<not> spec_masked demo_platform (nullish (opt_redactHeaders no_options)
              [js ''authorization'', js ''cookie'']) (js ''set-cookie'')"
    by (simp add: spec_masked_def nullish_def no_options_def demo_platform_def ascii_lower_def
        js_Nil js_Cons)
  obtain s' where r: "on_finish demo_platform app_logger demo_closure demo_state = (None, s')"
    using on_finish_Inr [of app_logger demo_state None demo_platform None demo_closure]
    by (simp add: app_logger_simps safeBody_def)
  have "\<exists>e. stdout s' = stdout demo_state @ [e]
          \<and> map_of (log_headers e) (js ''Authorization'') = Some REDACTED"
    using headers_redacted [OF demo_headers_wf a, of demo_platform no_options] r ma
    unfolding app_logger_def [symmetric] by fastforce
  then obtain e1 where 1: "stdout s' = stdout demo_state @ [e1]"
      "map_of (log_headers e1) (js ''Authorization'') = Some REDACTED"
    by blast
  have "\<exists>e. stdout s' = stdout demo_state @ [e]
          \<and> map_of (log_headers e) (js ''set-cookie'') = Some (Some (HArr [js ''a=1'', js ''b=2'']))"
    using headers_redacted [OF demo_headers_wf c, of demo_platform no_options] r mc
    unfolding app_logger_def [symmetric] by fastforce
  then obtain e2 where 2: "stdout s' = stdout demo_state @ [e2]"
      "map_of (log_headers e2) (js ''set-cookie'') = Some (Some (HArr [js ''a=1'', js ''b=2'']))"
    by blast
  from 1(1) 2(1) have "e2 = e1" by simp
  with 1 2 demo_headers_wf a c show ?thesis
    by (simp add: r demo_state_empty)
qed

text \<open>The hypothesis on \<open>__proto__\<close> cannot be dropped: on a header object that has it
  as an own key, the assignment onto the literal \<open>{}\<close> creates no property for it.\<close>

lemma safeHeaders_proto_key:
  "safeHeaders demo_platform app_logger proto_request = [(js ''Cookie'', REDACTED)]"
  by (simp add: safeHeaders_def safeHeaders_step_def assign_prop_def app_logger_simps
      demo_platform_def ascii_lower_def proto_request_def js_Nil js_Cons REDACTED_def)

section \<open>Severity\<close>

text \<open>
  C2. \<open>statusToSeverity\<close> is a total function of the integer status code: it returns
  \<open>ERROR\<close> exactly when the status is at least 500, \<open>WARNING\<close> exactly when it is at
  least 400 and below 500, and \<open>INFO\<close> in every other case.
\<close>

theorem statusToSeverity_ranges:
  "(statusToSeverity s = ERROR \<longleftrightarrow> 500 \<le> s)
   \<and> (statusToSeverity s = WARNING \<longleftrightarrow> 400 \<le> s \<and> s < 500)
   \<and> (statusToSeverity s = INFO \<longleftrightarrow> s < 400)"
  by (simp add: statusToSeverity_def)

section \<open>Body capture\<close>

lemma safeBody_returns: "\<exists>b. safeBody P opts r = Inr b"
  by (auto simp: safeBody_def safeBody_try_def split: sum.splits option.splits)

lemma slice0_take: "0 \<le> n \<Longrightarrow> int (length t) > n \<Longrightarrow> slice0 t n = take (nat n) t"
  by (simp add: slice0_def Let_def)

text \<open>
  C6. \<open>safeBody\<close> returns nothing when \<open>captureBody\<close> is false, and it never throws. A
  string body is taken as it is and any other body is serialised with
  \<open>JSON.stringify\<close>. With \<open>captureBody\<close> set: a serialisation that throws gives the
  marker \<open>[unserializable body]\<close>; no text or the empty text gives nothing; a text no
  longer than \<open>maxBodyLength\<close> is returned whole; a text longer than a (non-negative)
  \<open>maxBodyLength\<close> is cut to that many code units, followed by the truncation marker.
\<close>

theorem safeBody_cases:
  "(\<not> captureBody opts \<longrightarrow> safeBody P opts r = Inr None)
   \<and> safeBody P opts r \<noteq> Inl x
   \<and> (body r = OtherBody b \<longrightarrow> body_raw P r = JSON_stringify P b)
   \<and> (body r = StringBody t \<longrightarrow> body_raw P r = Inr (Some t))
   \<and> (captureBody opts \<longrightarrow>
        (body_raw P r = Inl e \<longrightarrow> safeBody P opts r = Inr (Some (js ''[unserializable body]'')))
        \<and> (body_raw P r = Inr None \<longrightarrow> safeBody P opts r = Inr None)
        \<and> (body_raw P r = Inr (Some []) \<longrightarrow> safeBody P opts r = Inr None)
        \<and> (body_raw P r = Inr (Some raw) \<longrightarrow> raw \<noteq> [] \<longrightarrow> int (length raw) \<le> maxBodyLength opts \<longrightarrow>
             safeBody P opts r = Inr (Some raw))
        \<and> (body_raw P r = Inr (Some raw) \<longrightarrow> 0 \<le> maxBodyLength opts \<longrightarrow>
             maxBodyLength opts < int (length raw) \<longrightarrow>
             safeBody P opts r = Inr (Some (take (nat (maxBodyLength opts)) raw @ truncated_marker))))"
proof -
  have 1: "safeBody P opts r \<noteq> Inl x"
    using safeBody_returns [of P opts r] by auto
  have 2: "(body r = OtherBody b \<longrightarrow> body_raw P r = JSON_stringify P b)
          \<and> (body r = StringBody t \<longrightarrow> body_raw P r = Inr (Some t))"
    by (simp add: body_raw_def)
  have 3: "body_raw P r = Inr (Some raw) \<longrightarrow> 0 \<le> maxBodyLength opts \<longrightarrow>
             maxBodyLength opts < int (length raw) \<longrightarrow> captureBody opts \<longrightarrow>
             safeBody P opts r = Inr (Some (take (nat (maxBodyLength opts)) raw @ truncated_marker))"
    by (auto simp: safeBody_def safeBody_try_def truthy_string_def slice0_take)
  have 4: "captureBody opts \<longrightarrow>
        (body_raw P r = Inl e \<longrightarrow> safeBody P opts r = Inr (Some (js ''[unserializable body]'')))
        \<and> (body_raw P r = Inr None \<longrightarrow> safeBody P opts r = Inr None)
        \<and> (body_raw P r = Inr (Some []) \<longrightarrow> safeBody P opts r = Inr None)
        \<and> (body_raw P r = Inr (Some raw) \<longrightarrow> raw \<noteq> [] \<longrightarrow> int (length raw) \<le> maxBodyLength opts \<longrightarrow>
             safeBody P opts r = Inr (Some raw))"
    by (simp add: safeBody_def safeBody_try_def truthy_string_def)
  have 5: "\<not> captureBody opts \<longrightarrow> safeBody P opts r = Inr None"
    by (simp add: safeBody_def)
  from 1 2 3 4 5 show ?thesis by blast
qed

theorem safeBody_cases_witness:
  "captureBody (app_logger\<lparr>captureBody := True, maxBodyLength := 10\<rparr>)
   \<and> body demo_request = StringBody (js ''abcdefghijklmnop'')
   \<and> safeBody demo_platform (app_logger\<lparr>captureBody := True, maxBodyLength := 10\<rparr>) demo_request
       = Inr (Some (js ''abcdefghij'' @ [0x2026] @ js ''[truncated]''))
   \<and> safeBody demo_platform app_logger demo_request = Inr None
   \<and> safeBody demo_platform (app_logger\<lparr>captureBody := True\<rparr>)
         (demo_request\<lparr>body := OtherBody (Inl (Thrown (js ''circular'')))\<rparr>)
       = Inr (Some (js ''[unserializable body]''))"
proof -
  let ?o = "app_logger\<lparr>captureBody := True, maxBodyLength := 10\<rparr>"
  have b: "body demo_request = StringBody (js ''abcdefghijklmnop'')"
    by (simp add: demo_request_def)
  have c: "captureBody ?o" "maxBodyLength ?o = 10" by simp_all
  have l: "length (js ''abcdefghijklmnop'') = 16" by (simp add: js_def)
  from safeBody_cases [of ?o demo_platform demo_request _ _ "js ''abcdefghijklmnop''" _ "js ''abcdefghijklmnop''"] b c l
  have 1: "safeBody demo_platform ?o demo_request
       = Inr (Some (take 10 (js ''abcdefghijklmnop'') @ truncated_marker))"
    by simp
  have nc: "\<not> captureBody app_logger"
    by (simp add: app_logger_def GcpLogger_def nullish_def no_options_def)
  from safeBody_cases [of app_logger demo_platform demo_request] nc
  have 2: "safeBody demo_platform app_logger demo_request = Inr None"
    by blast
  let ?r = "demo_request\<lparr>body := OtherBody (Inl (Thrown (js ''circular'')))\<rparr>"
  have br: "body_raw demo_platform ?r = Inl (Thrown (js ''circular''))"
    by (simp add: body_raw_def demo_platform_def)
  from safeBody_cases [of "app_logger\<lparr>captureBody := True\<rparr>" demo_platform ?r _ _ _ "Thrown (js ''circular'')"] br
  have 3: "safeBody demo_platform (app_logger\<lparr>captureBody := True\<rparr>) ?r
       = Inr (Some (js ''[unserializable body]''))"
    by simp
  from 1 2 3 b show ?thesis
    by (simp add: truncated_marker_def js_Nil js_Cons)
qed

section \<open>Trace derivation\<close>

text \<open>
  C7. \<open>buildTrace\<close> computes the specification's trace reference from the text of the
  \<open>x-cloud-trace-context\<close> header, which Node delivers as one string or not at all (the
  empty text when it is absent): the project is the first non-empty of
  \<open>GOOGLE_CLOUD_PROJECT\<close>, \<open>GCLOUD_PROJECT\<close> and the configured variable, the trace
  identifier is the text before the first \<open>/\<close>, and the result is
  \<open>projects/{project}/traces/{trace}\<close> when both are non-empty and nothing otherwise. It
  returns on every such header, whatever its text, and it returns nothing when none of
  the three variables is set.
\<close>

theorem buildTrace_spec:
  assumes "\<forall>xs. get_prop (headers r) (js ''x-cloud-trace-context'') \<noteq> Some (HArr xs)"
  shows "buildTrace opts penv r =
           Inr (spec_trace opts penv
                  (case get_prop (headers r) (js ''x-cloud-trace-context'') of
                     Some (HStr t) \<Rightarrow> t | _ \<Rightarrow> []))
       \<and> (penv (js ''GOOGLE_CLOUD_PROJECT'') = None \<longrightarrow> penv (js ''GCLOUD_PROJECT'') = None \<longrightarrow>
            penv (projectIdEnvVar opts) = None \<longrightarrow> buildTrace opts penv r = Inr None)"
proof (intro conjI impI)
  show eq: "buildTrace opts penv r =
           Inr (spec_trace opts penv
                  (case get_prop (headers r) (js ''x-cloud-trace-context'') of
                     Some (HStr t) \<Rightarrow> t | _ \<Rightarrow> []))"
    using assms by (simp add: buildTrace_text split: option.splits hval.splits)
  assume "penv (js ''GOOGLE_CLOUD_PROJECT'') = None" and "penv (js ''GCLOUD_PROJECT'') = None"
    and "penv (projectIdEnvVar opts) = None"
  then have "spec_project opts penv = None"
    by (rule spec_project_unset)
  then show "buildTrace opts penv r = Inr None"
    by (simp add: eq spec_trace_def)
qed

theorem buildTrace_spec_witness:
  "get_prop (headers demo_request) (js ''x-cloud-trace-context'') = Some (HStr (js ''abc123/1;o=1''))
   \<and> env demo_state (js ''GOOGLE_CLOUD_PROJECT'') = Some (js ''proj1'')
   \<and> buildTrace app_logger (env demo_state) demo_request
       = Inr (Some (js ''projects/proj1/traces/abc123''))
   \<and> buildTrace app_logger (\<lambda>n. None) demo_request = Inr None
   \<and> buildTrace app_logger (env demo_state) (demo_request\<lparr>headers := []\<rparr>) = Inr None
   \<and> buildTrace app_logger (env demo_state)
        (demo_request\<lparr>headers := [(js ''x-cloud-trace-context'', Some (HStr (js ''/no-trace-id'')))]\<rparr>)
       = Inr None"
proof -
  note g = demo_trace_header
  have e: "env demo_state (js ''GOOGLE_CLOUD_PROJECT'') = Some (js ''proj1'')"
    by (simp add: demo_state_def)
  have p: "spec_project app_logger (env demo_state) = Some (js ''proj1'')"
    by (simp add: spec_project_def demo_state_def js_Nil js_Cons)
  have na: "\<forall>xs. get_prop (headers demo_request) (js ''x-cloud-trace-context'') \<noteq> Some (HArr xs)"
    by (simp add: g)
  have 1: "buildTrace app_logger (env demo_state) demo_request
       = Inr (Some (js ''projects/proj1/traces/abc123''))"
    using buildTrace_spec [OF na, of app_logger "env demo_state"]
    by (simp add: g demo_spec_trace app_logger_simps)
  have 2: "buildTrace app_logger (\<lambda>n. None) demo_request = Inr None"
    using buildTrace_spec [OF na, of app_logger "\<lambda>n. None"] by blast
  let ?r0 = "demo_request\<lparr>headers := []\<rparr>"
  have n0: "\<forall>xs. get_prop (headers ?r0) (js ''x-cloud-trace-context'') \<noteq> Some (HArr xs)"
    by (simp add: get_prop_def)
  have 3: "buildTrace app_logger (env demo_state) ?r0 = Inr None"
    using buildTrace_spec [OF n0, of app_logger "env demo_state"]
    by (simp add: get_prop_def spec_trace_def p spec_trace_id_def)
  let ?r1 = "demo_request\<lparr>headers := [(js ''x-cloud-trace-context'', Some (HStr (js ''/no-trace-id'')))]\<rparr>"
  have n1: "\<forall>xs. get_prop (headers ?r1) (js ''x-cloud-trace-context'') \<noteq> Some (HArr xs)"
    by (simp add: get_prop_def)
  have 4: "buildTrace app_logger (env demo_state) ?r1 = Inr None"
    using buildTrace_spec [OF n1, of app_logger "env demo_state"]
    by (simp add: get_prop_def spec_trace_def p) (simp add: spec_trace_id_def js_Nil js_Cons)
  from g e 1 2 3 4 show ?thesis by simp
qed

text \<open>The hypothesis cannot be dropped: the header is read under the cast \<open>as string\<close>,
  and an array, were one delivered, has no \<open>split\<close> method.\<close>

lemma array_trace_TypeError:
  "buildTrace opts penv array_trace_request = Inl TypeError"
  by (simp add: buildTrace_text get_prop_def array_trace_request_def)

section \<open>Request identifiers\<close>

lemma error_mw_no_id:
  assumes "requestId (req t) = None" and "error_mw P opts err t = (None, t')"
  shows "\<exists>e. stderr t' = stderr t @ [e] \<and> log_requestId e = HStr (randomUUID t (uuid_calls t))
           \<and> uuid_calls t' = Suc (uuid_calls t)"
proof -
  have ou: "or_uuid (requestId (req t)) t =
      (HStr (randomUUID t (uuid_calls t)), t\<lparr>uuid_calls := Suc (uuid_calls t)\<rparr>)"
    using assms(1) by (simp add: or_uuid_def fresh_uuid_def)
  show ?thesis
  proof (cases "getUserId opts (req t)")
    case (Inl e)
    then show ?thesis using assms(2) by (simp add: error_mw_Inl)
  next
    case (Inr u)
    show ?thesis
    proof (cases "buildTrace opts (env t) (req t)")
      case (Inl e)
      then show ?thesis using assms(2) Inr by (simp add: error_mw_trace_Inl)
    next
      case tr: (Inr tr)
      from assms(2) show ?thesis
        by (auto simp: error_mw_Inr [OF Inr tr] ou error_entry_def)
    qed
  qed
qed

lemma requestId_assigned_run:
  assumes ne: "randomUUID s (uuid_calls s) \<noteq> []"
      and run: "request_run P opts s = (x, s')"
  shows "\<exists>rid. requestId (req s') = Some rid
      \<and> (if truthy (get_prop (headers (req s)) (js ''x-request-id''))
         then get_prop (headers (req s)) (js ''x-request-id'') = Some rid \<and> uuid_calls s' = uuid_calls s
         else rid = HStr (randomUUID s (uuid_calls s)) \<and> uuid_calls s' = Suc (uuid_calls s))
      \<and> (x = None \<longrightarrow> (\<exists>c. finish_listeners s' = finish_listeners s @ [c] \<and> cap_requestId c = rid
            \<and> (\<forall>t t'. on_finish P opts c t = (None, t') \<longrightarrow>
                  (\<exists>e. stdout t' = stdout t @ [e] \<and> log_requestId e = rid))))
      \<and> (\<forall>err t y t'. requestId (req t) = Some rid \<longrightarrow> error_mw P opts err t = (y, t') \<longrightarrow>
            uuid_calls t' = uuid_calls t \<and>
            (y = None \<longrightarrow> (\<exists>e. stderr t' = stderr t @ [e] \<and> log_requestId e = rid)))
      \<and> (\<forall>err t t'. requestId (req t) = None \<longrightarrow> error_mw P opts err t = (None, t') \<longrightarrow>
            (\<exists>e. stderr t' = stderr t @ [e] \<and> log_requestId e = HStr (randomUUID t (uuid_calls t))
                 \<and> uuid_calls t' = Suc (uuid_calls t)))"
proof -
  let ?h = "get_prop (headers (req s)) (js ''x-request-id'')"
  obtain rid s2 where o: "or_uuid ?h (s\<lparr>hr_reads := Suc (hr_reads s)\<rparr>) = (rid, s2)"
    by (cases "or_uuid ?h (s\<lparr>hr_reads := Suc (hr_reads s)\<rparr>)")
  note res = or_uuid_result [OF o]
  have tr: "truthy (Some rid)"
    using res ne by (auto split: if_splits)
  have u2: "uuid_calls s2 = (if truthy ?h then uuid_calls s else Suc (uuid_calls s))"
    using res by (auto split: if_splits)
  note mw = request_run_eq [OF o, of P opts]
  have 1: "requestId (req s') = Some rid"
    using run mw by (auto split: sum.splits)
  have 2: "uuid_calls s' = uuid_calls s2"
    using run mw by (auto split: sum.splits)
  have 3: "x = None \<longrightarrow> (\<exists>c. finish_listeners s' = finish_listeners s @ [c] \<and> cap_requestId c = rid)"
    using run mw by (auto split: sum.splits)
  have 4: "uuid_calls t' = uuid_calls t \<and>
            (y = None \<longrightarrow> (\<exists>e. stderr t' = stderr t @ [e] \<and> log_requestId e = rid))"
    if a: "requestId (req t) = Some rid" and b: "error_mw P opts err t = (y, t')" for err t y t'
  proof -
    have ou: "or_uuid (requestId (req t)) t = (rid, t)"
      using a tr by (simp add: or_uuid_truthy)
    show ?thesis
    proof (cases "getUserId opts (req t)")
      case (Inl e)
      then show ?thesis using b by (auto simp: error_mw_Inl ou)
    next
      case (Inr u)
      show ?thesis
      proof (cases "buildTrace opts (env t) (req t)")
        case (Inl e)
        then show ?thesis using b Inr by (auto simp: error_mw_trace_Inl ou)
      next
        case tr: (Inr tr)
        from b show ?thesis
          by (auto simp: error_mw_Inr [OF Inr tr] ou error_entry_def)
      qed
    qed
  qed
  have c2: "if truthy ?h then ?h = Some rid \<and> uuid_calls s' = uuid_calls s
         else rid = HStr (randomUUID s (uuid_calls s)) \<and> uuid_calls s' = Suc (uuid_calls s)"
    using res 2 u2 by (simp split: if_splits)
  have c3: "x = None \<longrightarrow> (\<exists>c. finish_listeners s' = finish_listeners s @ [c] \<and> cap_requestId c = rid
            \<and> (\<forall>t t'. on_finish P opts c t = (None, t') \<longrightarrow>
                  (\<exists>e. stdout t' = stdout t @ [e] \<and> log_requestId e = rid)))"
  proof
    assume "x = None"
    with 3 obtain c where c: "finish_listeners s' = finish_listeners s @ [c]" "cap_requestId c = rid"
      by blast
    have "\<forall>t t'. on_finish P opts c t = (None, t') \<longrightarrow>
                  (\<exists>e. stdout t' = stdout t @ [e] \<and> log_requestId e = rid)"
      using on_finish_entry [of P opts c] c(2) by (fastforce simp: request_entry_def)
    with c show "\<exists>c. finish_listeners s' = finish_listeners s @ [c] \<and> cap_requestId c = rid
            \<and> (\<forall>t t'. on_finish P opts c t = (None, t') \<longrightarrow>
                  (\<exists>e. stdout t' = stdout t @ [e] \<and> log_requestId e = rid))"
      by blast
  qed
  have c4: "\<forall>err t y t'. requestId (req t) = Some rid \<longrightarrow> error_mw P opts err t = (y, t') \<longrightarrow>
            uuid_calls t' = uuid_calls t \<and>
            (y = None \<longrightarrow> (\<exists>e. stderr t' = stderr t @ [e] \<and> log_requestId e = rid))"
    using 4 by blast
  have c5: "\<forall>err t t'. requestId (req t) = None \<longrightarrow> error_mw P opts err t = (None, t') \<longrightarrow>
            (\<exists>e. stderr t' = stderr t @ [e] \<and> log_requestId e = HStr (randomUUID t (uuid_calls t))
                 \<and> uuid_calls t' = Suc (uuid_calls t))"
    using error_mw_no_id [of _ P opts] by blast
  from 1 c2 c3 c4 c5 show ?thesis
    by (intro exI [of _ rid] conjI)
qed


text \<open>
  C3, as amended. A request that is not skipped is given one identifier, stored on the
  request: the value of its \<open>x-request-id\<close> header when that header is present and not
  the empty string, and otherwise the next result of \<open>crypto.randomUUID()\<close> (a
  non-empty text), generated by one call. When the middleware returns, the listener it
  registered carries that identifier and every entry the listener emits has it as
  \<open>requestId\<close>. The error middleware, run on a request that holds the identifier, emits
  it without calling the generator; run on a request that holds none, it emits the
  next generated one.
\<close>

theorem requestId_assigned:
  assumes ns: "\<not> fst (shouldSkip opts (path (req s)) s)"
      and ne: "randomUUID s (uuid_calls s) \<noteq> []"
      and run: "request_mw P opts s = (x, s')"
  shows "\<exists>rid. requestId (req s') = Some rid
      \<and> (if truthy (get_prop (headers (req s)) (js ''x-request-id''))
         then get_prop (headers (req s)) (js ''x-request-id'') = Some rid \<and> uuid_calls s' = uuid_calls s
         else rid = HStr (randomUUID s (uuid_calls s)) \<and> uuid_calls s' = Suc (uuid_calls s))
      \<and> (x = None \<longrightarrow> (\<exists>c. finish_listeners s' = finish_listeners s @ [c] \<and> cap_requestId c = rid
            \<and> (\<forall>t t'. on_finish P opts c t = (None, t') \<longrightarrow>
                  (\<exists>e. stdout t' = stdout t @ [e] \<and> log_requestId e = rid))))
      \<and> (\<forall>err t y t'. requestId (req t) = Some rid \<longrightarrow> error_mw P opts err t = (y, t') \<longrightarrow>
            uuid_calls t' = uuid_calls t \<and>
            (y = None \<longrightarrow> (\<exists>e. stderr t' = stderr t @ [e] \<and> log_requestId e = rid)))
      \<and> (\<forall>err t t'. requestId (req t) = None \<longrightarrow> error_mw P opts err t = (None, t') \<longrightarrow>
            (\<exists>e. stderr t' = stderr t @ [e] \<and> log_requestId e = HStr (randomUUID t (uuid_calls t))
                 \<and> uuid_calls t' = Suc (uuid_calls t)))"
proof -
  obtain s0 where sk: "shouldSkip opts (path (req s)) s = (False, s0)"
    using ns by (cases "shouldSkip opts (path (req s)) s") auto
  from shouldSkip_frame [OF sk]
  have f: "req s0 = req s" "uuid_calls s0 = uuid_calls s" "randomUUID s0 = randomUUID s"
      "finish_listeners s0 = finish_listeners s"
    by (metis state.select_convs state.surjective state.update_convs)+
  have run0: "request_run P opts s0 = (x, s')"
    using run by (simp add: request_mw_def sk)
  have ne0: "randomUUID s0 (uuid_calls s0) \<noteq> []"
    using ne by (simp add: f)
  show ?thesis
    using requestId_assigned_run [OF ne0 run0] by (simp only: f)
qed

theorem requestId_assigned_witness:
  "\<not> fst (shouldSkip app_logger (path (req demo_state)) demo_state)
   \<and> randomUUID demo_state (uuid_calls demo_state) \<noteq> []
   \<and> get_prop (headers (req demo_state)) (js ''x-request-id'') = Some (HStr (js ''req-42''))
   \<and> requestId (req (snd (request_mw demo_platform app_logger demo_state))) = Some (HStr (js ''req-42''))
   \<and> uuid_calls (snd (request_mw demo_platform app_logger demo_state)) = 0"
proof -
  have ns: "\<not> fst (shouldSkip app_logger (path (req demo_state)) demo_state)"
    by (simp add: demo_state_empty demo_request_def demo_not_skipped)
  have ne: "randomUUID demo_state (uuid_calls demo_state) \<noteq> []"
    by (simp add: demo_state_def)
  have h: "get_prop (headers (req demo_state)) (js ''x-request-id'') = Some (HStr (js ''req-42''))"
    by (simp add: demo_state_def demo_request_def get_prop_def)
  have u: "uuid_calls demo_state = 0"
    by (simp add: demo_state_def)
  have t: "truthy (Some (HStr (js ''req-42'')))"
    by (simp add: js_Cons)
  obtain x s' where run: "request_mw demo_platform app_logger demo_state = (x, s')"
    by (cases "request_mw demo_platform app_logger demo_state")
  from requestId_assigned [OF ns ne run] h t u
  have "requestId (req s') = Some (HStr (js ''req-42'')) \<and> uuid_calls s' = 0"
    by auto
  with ns ne h run show ?thesis by simp
qed

theorem requestId_empty_header:
  "get_prop (headers (req empty_id_state)) (js ''x-request-id'') = Some (HStr (js ''''))
   \<and> \<not> fst (shouldSkip app_logger (path (req empty_id_state)) empty_id_state)
   \<and> requestId (req (snd (request_mw demo_platform app_logger empty_id_state)))
       = Some (HStr (js ''uuid-0''))
   \<and> map log_requestId
        (stdout (snd (emit_finish demo_platform app_logger
                       (snd (request_mw demo_platform app_logger empty_id_state)))))
       = [HStr (js ''uuid-0'')]"
proof -
  let ?s = empty_id_state
  have h: "get_prop (headers (req ?s)) (js ''x-request-id'') = Some (HStr (js ''''))"
    by (simp add: empty_id_state_def get_prop_def)
  have pa: "path (req ?s) = js ''/api/items''"
    by (simp add: empty_id_state_def demo_request_def)
  have ns: "\<not> fst (shouldSkip app_logger (path (req ?s)) ?s)"
    by (simp add: pa demo_not_skipped)
  have nt: "\<not> truthy (get_prop (headers (req ?s)) (js ''x-request-id''))"
    by (simp add: h js_Nil)
  have ru: "randomUUID ?s (uuid_calls ?s) = js ''uuid-0''"
    by (simp add: empty_id_state_def demo_state_def js_Nil js_Cons)
  have o: "or_uuid (get_prop (headers (req ?s)) (js ''x-request-id'')) (?s\<lparr>hr_reads := Suc (hr_reads ?s)\<rparr>)
      = (HStr (js ''uuid-0''), ?s\<lparr>hr_reads := Suc (hr_reads ?s), uuid_calls := Suc (uuid_calls ?s)\<rparr>)"
    by (simp add: or_uuid_falsy [OF nt] fresh_uuid_def ru)
  have b: "buildTrace app_logger (env ?s) ((req ?s)\<lparr>requestId := Some (HStr (js ''uuid-0''))\<rparr>) = Inr None"
    by (simp add: buildTrace_text get_prop_def empty_id_state_def demo_request_def spec_trace_def
        spec_trace_id_def js_Nil js_Cons split: option.splits)
  have mw0: "request_mw demo_platform app_logger ?s = request_run demo_platform app_logger ?s"
    by (simp add: request_mw_def pa demo_not_skipped)
  note mw = request_run_eq [OF o, of demo_platform app_logger, unfolded b, simplified]
  have 1: "requestId (req (snd (request_mw demo_platform app_logger ?s))) = Some (HStr (js ''uuid-0''))"
    by (simp add: mw0 mw)
  have fl: "finish_listeners ?s = []"
    by (simp add: empty_id_state_def demo_state_def)
  have 2: "map log_requestId
        (stdout (snd (emit_finish demo_platform app_logger
                       (snd (request_mw demo_platform app_logger ?s)))))
       = [HStr (js ''uuid-0'')]"
    by (simp add: mw0 mw emit_finish_def fl on_finish_def Let_def app_logger_simps safeBody_def
        request_entry_def)
       (simp add: empty_id_state_def demo_state_def)
  from h ns 1 2 show ?thesis by simp
qed

section \<open>Duration\<close>






text \<open>
  The floor is written only into \<open>latency\<close>, as \<open>Math.max(durationMs, 0)\<close>; the field
  \<open>durationMs\<close> owes its sign to the clock. On a clock that went back by 5 ms between
  the two readings, which \<open>process.hrtime\<close> does not do, the entry would carry
  \<open>durationMs = -5\<close> beside a latency of 0.
\<close>

lemma durationMs_backwards_clock:
  "map (\<lambda>e. (log_durationMs e, http_latency (log_httpRequest e)))
     (stdout (snd (emit_finish demo_platform app_logger
                    (snd (request_mw demo_platform app_logger backwards_state)))))
   = [(Some (- 5), Some (Seconds_of_ms 0))]"
proof -
  let ?s = backwards_state
  have r: "request_run demo_platform app_logger ?s =
     (None, ?s\<lparr>hr_reads := Suc (hr_reads ?s),
              req := (req ?s)\<lparr>requestId := Some (HStr (js ''req-42''))\<rparr>,
              finish_listeners := finish_listeners ?s @ [demo_closure],
              next_calls := next_calls ?s @ [None]\<rparr>)"
    by (rule demo_request_run) (simp_all add: backwards_state_def demo_state_def app_logger_simps)
  have p: "path (req ?s) = js ''/api/items''" "finish_listeners ?s = []" "stdout ?s = []"
      "hr_reads ?s = 0"
    by (simp_all add: backwards_state_def demo_state_def demo_request_def)
  have mw: "request_mw demo_platform app_logger ?s = request_run demo_platform app_logger ?s"
    by (simp add: request_mw_def p demo_not_skipped)
  have q: "(- 5000000 :: int) sdiv 1000000 = - 5"
    by (simp add: signed_divide_int_def)
  show ?thesis
    by (simp add: mw r p emit_finish_def on_finish_def Let_def app_logger_simps safeBody_def
        request_entry_def demo_closure_def)
       (simp add: backwards_state_def q)
qed

section \<open>The error entry\<close>

lemma demo_getUserId: "getUserId app_logger (req demo_state) = Inr None"
  by (simp add: app_logger_simps)

lemma demo_buildTrace:
  "buildTrace app_logger (env demo_state) (req demo_state) = Inr (Some (js ''projects/proj1/traces/abc123''))"
  by (simp add: buildTrace_text demo_state_empty demo_trace_header demo_spec_trace app_logger_simps)

lemma demo_trace_not_array:
  "\<forall>xs. get_prop (headers (req demo_state)) (js ''x-cloud-trace-context'') \<noteq> Some (HArr xs)"
  by (simp add: demo_state_empty demo_trace_header)

lemma trace_returns:
  assumes "\<forall>xs. get_prop (headers r) (js ''x-cloud-trace-context'') \<noteq> Some (HArr xs)"
  shows "\<exists>tr. buildTrace opts penv r = Inr tr"
  using assms by (simp add: buildTrace_text split: option.splits hval.splits)

lemma error_entry_fields:
  "log_severity (error_entry P opts err rid u tr r rs) = ERROR"
  "log_message (error_entry P opts err rid u tr r rs) =
     (case err_message err of
        None \<Rightarrow> js ''Unhandled error''
      | Some m \<Rightarrow> if m = [] then js ''Unhandled error'' else m)"
  "log_stack (error_entry P opts err rid u tr r rs) = err_stack err"
  "log_userId (error_entry P opts err rid u tr r rs) = u"
  by (simp_all add: error_entry_def truthy_string_def nullish_def split: option.splits)

text \<open>
  C8, as amended. Every entry the error middleware emits has severity \<open>ERROR\<close>, as
  message the failure's message when that is a non-empty string and the literal
  \<open>Unhandled error\<close> when the message is absent or empty, and as \<open>stack\<close> the failure's
  stack, present exactly when the failure has one. When the user-id callback returns,
  on a request whose trace header is one string or absent, as Node delivers it, the
  middleware emits one such entry to the error sink and then calls \<open>next\<close> once, with
  the failure it was given.
\<close>

theorem error_logged_and_forwarded:
  assumes "\<forall>xs. get_prop (headers (req s)) (js ''x-cloud-trace-context'') \<noteq> Some (HArr xs)"
  shows "(\<forall>y s'. error_mw P opts err s = (y, s') \<longrightarrow>
            stderr s' = stderr s
            \<or> (\<exists>e. stderr s' = stderr s @ [e] \<and> log_severity e = ERROR
                   \<and> log_message e =
                       (case err_message err of
                          None \<Rightarrow> js ''Unhandled error''
                        | Some m \<Rightarrow> if m = [] then js ''Unhandled error'' else m)
                   \<and> log_stack e = err_stack err))
       \<and> (\<forall>u. getUserId opts (req s) = Inr u \<longrightarrow>
            (\<exists>e s'. error_mw P opts err s = (None, s')
                \<and> stderr s' = stderr s @ [e] \<and> stdout s' = stdout s
                \<and> log_severity e = ERROR
                \<and> log_message e =
                    (case err_message err of
                       None \<Rightarrow> js ''Unhandled error''
                     | Some m \<Rightarrow> if m = [] then js ''Unhandled error'' else m)
                \<and> log_stack e = err_stack err
                \<and> next_calls s' = next_calls s @ [Some err]))"
proof (intro conjI allI impI)
  fix y s'
  assume run: "error_mw P opts err s = (y, s')"
  show "stderr s' = stderr s
            \<or> (\<exists>e. stderr s' = stderr s @ [e] \<and> log_severity e = ERROR
                   \<and> log_message e =
                       (case err_message err of
                          None \<Rightarrow> js ''Unhandled error''
                        | Some m \<Rightarrow> if m = [] then js ''Unhandled error'' else m)
                   \<and> log_stack e = err_stack err)"
  proof (cases y)
    case None
    from error_mw_entry [OF run [unfolded None]] show ?thesis
      by (auto simp: error_entry_fields)
  next
    case (Some x)
    have "stderr s' = stderr s"
    proof (cases "getUserId opts (req s)")
      case (Inl e)
      then show ?thesis using run by (auto simp: error_mw_Inl or_uuid_keeps)
    next
      case (Inr u)
      obtain tr where "buildTrace opts (env s) (req s) = Inr tr"
        using trace_returns [OF assms] by blast
      with run Inr Some show ?thesis by (simp add: error_mw_Inr)
    qed
    then show ?thesis by simp
  qed
next
  fix u
  assume u: "getUserId opts (req s) = Inr u"
  obtain tr where tr: "buildTrace opts (env s) (req s) = Inr tr"
    using trace_returns [OF assms] by blast
  let ?e = "error_entry P opts err (fst (or_uuid (requestId (req s)) s)) u tr (req s) (res s)"
  let ?s' = "(snd (or_uuid (requestId (req s)) s))
              \<lparr>stderr := stderr s @ [?e], next_calls := next_calls s @ [Some err]\<rparr>"
  have run: "error_mw P opts err s = (None, ?s')"
    by (rule error_mw_Inr [OF u tr])
  have st: "stderr ?s' = stderr s @ [?e]" "stdout ?s' = stdout s"
      "next_calls ?s' = next_calls s @ [Some err]"
    by (simp_all add: or_uuid_keeps)
  from run st show "\<exists>e s'. error_mw P opts err s = (None, s')
                \<and> stderr s' = stderr s @ [e] \<and> stdout s' = stdout s
                \<and> log_severity e = ERROR
                \<and> log_message e =
                    (case err_message err of
                       None \<Rightarrow> js ''Unhandled error''
                     | Some m \<Rightarrow> if m = [] then js ''Unhandled error'' else m)
                \<and> log_stack e = err_stack err
                \<and> next_calls s' = next_calls s @ [Some err]"
    by (intro exI [of _ ?e] exI [of _ ?s']) (simp add: error_entry_fields)
qed

theorem error_logged_and_forwarded_witness:
  "(\<forall>xs. get_prop (headers (req demo_state)) (js ''x-cloud-trace-context'') \<noteq> Some (HArr xs))
   \<and> getUserId app_logger (req demo_state) = Inr None
   \<and> fst (error_mw demo_platform app_logger boom demo_state) = None
   \<and> map log_severity (stderr (snd (error_mw demo_platform app_logger boom demo_state))) = [ERROR]
   \<and> map log_message (stderr (snd (error_mw demo_platform app_logger boom demo_state))) = [js ''boom'']
   \<and> map log_stack (stderr (snd (error_mw demo_platform app_logger boom demo_state))) = [None]
   \<and> next_calls (snd (error_mw demo_platform app_logger boom demo_state)) = [Some boom]"
proof -
  from error_logged_and_forwarded [OF demo_trace_not_array, of demo_platform app_logger boom]
    demo_getUserId
  obtain e s' where r: "error_mw demo_platform app_logger boom demo_state = (None, s')"
    and f: "stderr s' = stderr demo_state @ [e]" "log_severity e = ERROR"
      "log_message e = (case err_message boom of
             None \<Rightarrow> js ''Unhandled error''
           | Some m \<Rightarrow> if m = [] then js ''Unhandled error'' else m)"
      "log_stack e = err_stack boom" "next_calls s' = next_calls demo_state @ [Some boom]"
    by blast
  have m: "log_message e = js ''boom''" "log_stack e = None"
    using f(3,4) by (simp_all add: boom_def js_Cons)
  show ?thesis
    using demo_getUserId demo_trace_not_array r f(1,2,5) m by (simp add: demo_state_empty)
qed

theorem error_message_or_forwarding_lost:
  "err_message empty_failure = Some (js '''')
   \<and> map log_message (stderr (snd (error_mw demo_platform app_logger empty_failure demo_state)))
       = [js ''Unhandled error'']
   \<and> fst (error_mw demo_platform throwing_logger boom demo_state) = Some (Thrown (js ''no session''))
   \<and> stderr (snd (error_mw demo_platform throwing_logger boom demo_state)) = []
   \<and> next_calls (snd (error_mw demo_platform throwing_logger boom demo_state)) = []"
proof -
  have 1: "map log_message (stderr (snd (error_mw demo_platform app_logger empty_failure demo_state)))
       = [js ''Unhandled error'']"
    by (simp add: error_mw_Inr [OF demo_getUserId demo_buildTrace] demo_state_empty)
       (simp add: error_entry_def empty_failure_def truthy_string_def js_Nil)
  have g: "getUserId throwing_logger (req demo_state) = Inl (Thrown (js ''no session''))"
    by (simp add: throwing_logger_def)
  have 2: "error_mw demo_platform throwing_logger boom demo_state =
      (Some (Thrown (js ''no session'')), snd (or_uuid (requestId (req demo_state)) demo_state))"
    by (rule error_mw_Inl [OF g])
  show ?thesis
    using 1 by (simp add: 2 or_uuid_keeps demo_state_empty empty_failure_def)
qed

section \<open>The user-id callback\<close>

text \<open>What the code does when the callback throws: nothing catches the exception.\<close>

lemma getUserId_throw_propagates:
  assumes "getUserId opts (req s) = Inl x"
  shows "on_finish P opts c s = (Some x, s\<lparr>hr_reads := Suc (hr_reads s)\<rparr>)"
    and "fst (error_mw P opts err s) = Some x"
    and "stderr (snd (error_mw P opts err s)) = stderr s"
    and "next_calls (snd (error_mw P opts err s)) = next_calls s"
  by (simp_all add: on_finish_Inl [OF assms] error_mw_Inl [OF assms] or_uuid_keeps)

text \<open>
  C9. A failure inside the user-id callback is not to reach the request and not to
  abort the entry. The code calls the callback unguarded in both middlewares: with a
  callback that throws, the exception leaves the completion listener and no request
  entry is written, and it leaves the error middleware, which then writes no error
  entry and does not call \<open>next\<close>. Only the serialisation of the body is guarded, by
  the \<open>try\<close> of \<open>safeBody\<close>.
\<close>

theorem getUserId_throw_aborts_entry:
  "getUserId throwing_logger (req demo_state) = Inl (Thrown (js ''no session''))
   \<and> fst (request_mw demo_platform throwing_logger demo_state) = None
   \<and> fst (emit_finish demo_platform throwing_logger
          (snd (request_mw demo_platform throwing_logger demo_state)))
       = Some (Thrown (js ''no session''))
   \<and> stdout (snd (emit_finish demo_platform throwing_logger
          (snd (request_mw demo_platform throwing_logger demo_state)))) = []
   \<and> fst (error_mw demo_platform throwing_logger boom demo_state) = Some (Thrown (js ''no session''))
   \<and> stderr (snd (error_mw demo_platform throwing_logger boom demo_state)) = []
   \<and> next_calls (snd (error_mw demo_platform throwing_logger boom demo_state)) = []"
proof -
  have g: "getUserId throwing_logger r = Inl (Thrown (js ''no session''))" for r
    by (simp add: throwing_logger_def)
  have sp: "skipPaths throwing_logger = skipPaths app_logger"
      "projectIdEnvVar throwing_logger = js ''GCP_PROJECT''"
    by (simp_all add: throwing_logger_def app_logger_simps)
  have sk: "shouldSkip throwing_logger (js ''/api/items'') s = (False, s)" for s
    using demo_not_skipped [of s] by (simp add: shouldSkip_def sp)
  have r: "request_run demo_platform throwing_logger demo_state =
     (None, demo_state\<lparr>hr_reads := Suc (hr_reads demo_state),
              req := (req demo_state)\<lparr>requestId := Some (HStr (js ''req-42''))\<rparr>,
              finish_listeners := finish_listeners demo_state @ [demo_closure],
              next_calls := next_calls demo_state @ [None]\<rparr>)"
    by (rule demo_request_run) (simp_all add: demo_state_def sp)
  have p: "path (req demo_state) = js ''/api/items''"
    by (simp add: demo_state_def demo_request_def)
  have mw: "request_mw demo_platform throwing_logger demo_state =
      request_run demo_platform throwing_logger demo_state"
    by (simp add: request_mw_def p sk)
  show ?thesis
    by (simp add: g mw r emit_finish_def demo_state_empty on_finish_Inl [OF g])
       (simp add: getUserId_throw_propagates [OF g] demo_state_empty)
qed

section \<open>Fields of the error entry\<close>

text \<open>
  C10. The error middleware writes nothing to the informational sink, and the entry it
  writes to the error sink has no \<open>durationMs\<close>, \<open>query\<close>, \<open>host\<close> or \<open>body\<close> field, and
  no \<open>referer\<close>, \<open>protocol\<close> or \<open>latency\<close> in its \<open>httpRequest\<close>; when it raises it
  writes no entry at all. An entry of the completion listener is tagged \<open>request\<close> and
  carries \<open>durationMs\<close> and \<open>latency\<close>.
\<close>

theorem error_entry_omits:
  assumes "error_mw P opts err s = (y, s')"
  shows "stdout s' = stdout s
      \<and> (y \<noteq> None \<longrightarrow> stderr s' = stderr s)
      \<and> (y = None \<longrightarrow>
           (\<exists>e. stderr s' = stderr s @ [e] \<and> log_type e = js ''error''
                \<and> log_durationMs e = None \<and> log_query e = None
                \<and> log_host e = None \<and> log_body e = None
                \<and> http_referer (log_httpRequest e) = None
                \<and> http_protocol (log_httpRequest e) = None
                \<and> http_latency (log_httpRequest e) = None))
      \<and> (\<forall>c t'. on_finish P opts c s = (None, t') \<longrightarrow>
           (\<exists>e. stdout t' = stdout s @ [e] \<and> log_type e = js ''request''
                \<and> log_durationMs e \<noteq> None \<and> http_latency (log_httpRequest e) \<noteq> None))"
proof -
  have fin: "\<forall>c t'. on_finish P opts c s = (None, t') \<longrightarrow>
           (\<exists>e. stdout t' = stdout s @ [e] \<and> log_type e = js ''request''
                \<and> log_durationMs e \<noteq> None \<and> http_latency (log_httpRequest e) \<noteq> None)"
    by (auto simp: on_finish_def Let_def request_entry_def split: sum.splits)
  show ?thesis
  proof (cases "getUserId opts (req s)")
    case (Inl x)
    from assms show ?thesis
      using fin by (auto simp: error_mw_Inl [OF Inl] or_uuid_keeps)
  next
    case (Inr u)
    show ?thesis
    proof (cases "buildTrace opts (env s) (req s)")
      case (Inl x)
      from assms show ?thesis
        using fin by (auto simp: error_mw_trace_Inl [OF Inr Inl] or_uuid_keeps)
    next
      case tr: (Inr tr)
      let ?e = "error_entry P opts err (fst (or_uuid (requestId (req s)) s)) u tr (req s) (res s)"
      have e: "log_type ?e = js ''error''" "log_durationMs ?e = None" "log_query ?e = None"
          "log_host ?e = None" "log_body ?e = None" "http_referer (log_httpRequest ?e) = None"
          "http_protocol (log_httpRequest ?e) = None" "http_latency (log_httpRequest ?e) = None"
        by (simp_all add: error_entry_def)
      from assms have y: "y = None" and s': "stdout s' = stdout s" "stderr s' = stderr s @ [?e]"
        by (auto simp: error_mw_Inr [OF Inr tr] or_uuid_keeps)
      from y s' e fin show ?thesis by blast
    qed
  qed
qed

theorem error_entry_omits_witness:
  "get_prop (headers (req demo_state)) (js ''host'') = Some (HStr (js ''api.example.test''))
   \<and> query (req demo_state) = Some ()
   \<and> fst (error_mw demo_platform app_logger boom demo_state) = None
   \<and> map log_durationMs (stderr (snd (error_mw demo_platform app_logger boom demo_state))) = [None]
   \<and> map log_query (stderr (snd (error_mw demo_platform app_logger boom demo_state))) = [None]
   \<and> map log_host (stderr (snd (error_mw demo_platform app_logger boom demo_state))) = [None]
   \<and> map log_body (stderr (snd (error_mw demo_platform app_logger boom demo_state))) = [None]
   \<and> map (\<lambda>e. http_latency (log_httpRequest e))
        (stderr (snd (error_mw demo_platform app_logger boom demo_state))) = [None]
   \<and> stdout (snd (error_mw demo_platform app_logger boom demo_state)) = []"
proof -
  obtain s' where r: "error_mw demo_platform app_logger boom demo_state = (None, s')"
    using error_mw_Inr [OF demo_getUserId demo_buildTrace, of demo_platform boom] by simp
  from error_entry_omits [OF r]
  obtain e where f: "stdout s' = stdout demo_state" "stderr s' = stderr demo_state @ [e]"
      "log_durationMs e = None" "log_query e = None" "log_host e = None" "log_body e = None"
      "http_latency (log_httpRequest e) = None"
    by blast
  have h: "get_prop (headers (req demo_state)) (js ''host'') = Some (HStr (js ''api.example.test''))"
    by (simp add: get_prop_def demo_state_def demo_request_def js_Nil js_Cons)
  have q: "query (req demo_state) = Some ()"
    by (simp add: demo_state_def demo_request_def)
  show ?thesis
    using h q f by (simp add: r demo_state_empty)
qed

end
